theory Spec2Isabelle
  imports Complex_Main "HOL-Library.Sublist"
begin

text \<open>
  The backend of the patent question-answering service: the helpers around the text
  generation, embedding, vector index and SQLite services, the router of the search
  endpoint (\<open>api_server.py\<close>) and the ingestion run (\<open>data_loader.py\<close>). The external
  services are parameters of the model; every call made to them is recorded, so that the
  properties can say which calls a request makes and which it does not.
\<close>

section \<open>Strings\<close>

text \<open>
  Python's \<open>str\<close> is a sequence of code points. It is modelled by \<open>string\<close>, the list
  of the bytes of its UTF-8 encoding: an ASCII character is one \<open>char\<close>, any other
  character the two to four bytes of its encoding. \<open>x in s\<close> on strings is
  \<open>sublist x s\<close> and \<open>s.startswith(x)\<close> is \<open>prefix x s\<close>, which on encodings say
  what they say on code points.

  \<open>str.strip()\<close> removes at both ends the characters for which \<open>str.isspace()\<close>
  holds. \<open>whitespace\<close> lists their encodings: U+0009 to U+000D, U+001C to U+001F,
  U+0020, U+0085, U+00A0, U+1680, U+2000 to U+200A, U+2028, U+2029, U+202F, U+205F and
  U+3000.
\<close>

definition whitespace :: "string list" where
  "whitespace =
     [ [CHR 0x09], [CHR 0x0A], [CHR 0x0B], [CHR 0x0C], [CHR 0x0D],
       [CHR 0x1C], [CHR 0x1D], [CHR 0x1E], [CHR 0x1F], [CHR 0x20],
       [CHR 0xC2, CHR 0x85], [CHR 0xC2, CHR 0xA0],
       [CHR 0xE1, CHR 0x9A, CHR 0x80],
       [CHR 0xE2, CHR 0x80, CHR 0x80], [CHR 0xE2, CHR 0x80, CHR 0x81],
       [CHR 0xE2, CHR 0x80, CHR 0x82], [CHR 0xE2, CHR 0x80, CHR 0x83],
       [CHR 0xE2, CHR 0x80, CHR 0x84], [CHR 0xE2, CHR 0x80, CHR 0x85],
       [CHR 0xE2, CHR 0x80, CHR 0x86], [CHR 0xE2, CHR 0x80, CHR 0x87],
       [CHR 0xE2, CHR 0x80, CHR 0x88], [CHR 0xE2, CHR 0x80, CHR 0x89],
       [CHR 0xE2, CHR 0x80, CHR 0x8A],
       [CHR 0xE2, CHR 0x80, CHR 0xA8], [CHR 0xE2, CHR 0x80, CHR 0xA9],
       [CHR 0xE2, CHR 0x80, CHR 0xAF], [CHR 0xE2, CHR 0x81, CHR 0x9F],
       [CHR 0xE3, CHR 0x80, CHR 0x80] ]"

text \<open>
  \<open>str.lstrip()\<close> and \<open>str.rstrip()\<close>: a white-space character at the end in question
  is removed, again and again. Each removal shortens the string, so both terminate.
\<close>

function lstrip :: "string \<Rightarrow> string" where
  "lstrip s =
     (case find (\<lambda>w. prefix w s) whitespace of
        None \<Rightarrow> s
      | Some w \<Rightarrow> lstrip (drop (length w) s))"
  by pat_completeness auto

termination lstrip
proof (relation "measure length")
  show "wf (measure length)" by simp
next
  fix s w
  assume "find (\<lambda>w. prefix w s) whitespace = Some w"
  then have "prefix w s" and "w \<in> set whitespace" by (auto simp add: find_Some_iff)
  then have "w \<noteq> []" and "length w \<le> length s"
    by (auto simp add: whitespace_def prefix_length_le)
  then show "(drop (length w) s, s) \<in> measure length" by (cases w) auto
qed

function rstrip :: "string \<Rightarrow> string" where
  "rstrip s =
     (case find (\<lambda>w. suffix w s) whitespace of
        None \<Rightarrow> s
      | Some w \<Rightarrow> rstrip (take (length s - length w) s))"
  by pat_completeness auto

termination rstrip
proof (relation "measure length")
  show "wf (measure length)" by simp
next
  fix s w
  assume "find (\<lambda>w. suffix w s) whitespace = Some w"
  then have "suffix w s" and "w \<in> set whitespace" by (auto simp add: find_Some_iff)
  then have "w \<noteq> []" and "length w \<le> length s"
    by (auto simp add: whitespace_def suffix_length_le)
  then show "(take (length s - length w) s, s) \<in> measure length" by (cases w) auto
qed

declare lstrip.simps [simp del]

declare rstrip.simps [simp del]

definition strip :: "string \<Rightarrow> string" where
  "strip s = rstrip (lstrip s)"

text \<open>
  \<open>str.lower()\<close> folds the letters \<open>A\<close> to \<open>Z\<close> and leaves every other ASCII character.
  What a character outside ASCII becomes is decided by the Unicode database of the
  interpreter, which is no part of the source: it is the parameter \<open>ucd\<close>. For a byte
  outside ASCII at offset \<open>i\<close> of \<open>s\<close>, \<open>ucd s i\<close> is what the lower-cased string holds
  for it: at the first byte of a character the encoding of its lower case, which may
  depend on the characters around it and may hold ASCII letters (U+0130 gives \<open>i\<close> and
  U+0307, U+212A gives \<open>k\<close>), and nothing at the bytes that continue the character.
\<close>

type_synonym unicode_db = "string \<Rightarrow> nat \<Rightarrow> string"

definition lower_ascii :: "char \<Rightarrow> char" where
  "lower_ascii c =
     (let n = (of_char c :: nat) in if 65 \<le> n \<and> n \<le> 90 then char_of (n + 32) else c)"

definition lower :: "unicode_db \<Rightarrow> string \<Rightarrow> string" where
  "lower ucd s =
     concat (map (\<lambda>i. if (of_char (s ! i) :: nat) < 128 then [lower_ascii (s ! i)]
                        else ucd s i)
                 [0..<length s])"

text \<open>\<open>sep.join(xs)\<close>.\<close>

fun join :: "string \<Rightarrow> string list \<Rightarrow> string" where
  "join sep [] = []"
| "join sep [x] = x"
| "join sep (x # y # ys) = x @ sep @ join sep (y # ys)"

text \<open>The decimal rendering of a non-negative integer inside an f-string.\<close>

fun str_nat :: "nat \<Rightarrow> string" where
  "str_nat n =
     (if n < 10 then [char_of (48 + n)]
      else str_nat (n div 10) @ [char_of (48 + n mod 10)])"

declare str_nat.simps [simp del]

definition nl :: string where
  "nl = [CHR 0x0A]"

text \<open>The arrow U+2192 of the classification prompt, in UTF-8.\<close>

definition rightarrow :: string where
  "rightarrow = [CHR 0xE2, CHR 0x86, CHR 0x92]"

section \<open>External services and the record of their calls\<close>

text \<open>
  A raised \<open>Exception\<close> is a value carrying its message, the \<open>str(e)\<close> of the handlers.
\<close>

datatype error = Error string

fun str_of_error :: "error \<Rightarrow> string" where
  "str_of_error (Error m) = m"

text \<open>
  What a call of a provider SDK does: it raises, or it returns something the caller cannot
  use (a falsy response, or one without the attribute that is read), or it returns a value.
\<close>

datatype 'a outcome = Raises error | NoResponse | Returns 'a

record sparse_embedding =
  sp_indices :: "int list"
  sp_values :: "real list"

text \<open>
  The dictionary passed to \<open>index.upsert(vectors=[...])\<close>: \<open>sparse_values\<close> is present
  in the hybrid format only; \<open>metadata\<close> is \<open>{"patent_number": .., "title": ..}\<close>.
\<close>

record vector_data =
  vd_id :: string
  vd_values :: "real list"
  vd_metadata :: "(string \<times> string) list"
  vd_sparse_values :: "sparse_embedding option"

text \<open>A row of the table \<open>patent_chunks\<close>; every column but the key may hold NULL.\<close>

record patent_chunk =
  vector_id :: string
  patent_number :: "string option"
  title :: "string option"
  description :: "string option"
  abstract :: "string option"
  claims_text :: "string option"
  detailed_summary :: "string option"

text \<open>
  A dictionary is an association list in insertion order; \<open>map_of\<close> is the lookup and an
  absent key is \<open>None\<close>. A selected row is such a dictionary from column names to values.
\<close>

type_synonym row_dict = "(string \<times> string option) list"

text \<open>
  Each call of an external service, with what it was given and what it gave back:
  \<^item> \<open>gemini_model.generate_content(prompt, ...)\<close>;
  \<^item> \<open>client.models.embed_content(contents=text, ...)\<close>;
  \<^item> \<open>pc_client.inference.embed(inputs=[text], parameters={"input_type": t, ...})\<close>, whose
    usable result is the pair of sparse indices and values of \<open>response.data[0]\<close>, or
    \<open>None\<close> when none of the three access paths finds them;
  \<^item> \<open>index.query(vector=.., [sparse_vector=..,] top_k=.., include_metadata=False)\<close>: the
    sparse argument is \<open>None\<close> when it is not passed, and the result is the list of the
    \<open>id\<close>s of \<open>matches\<close>;
  \<^item> \<open>index.upsert(vectors=[v])\<close>;
  \<^item> \<open>uuid.uuid4()\<close>;
  \<^item> the \<open>SELECT\<close> of \<open>fetch_metadata_from_sqlite\<close>.
\<close>

datatype call =
    GenerateContent string "string outcome"
  | EmbedContent string "real list outcome"
  | InferenceEmbed string string "sparse_embedding option outcome"
  | IndexQuery "real list" "sparse_embedding option option" int "error + string list"
  | IndexUpsert vector_data "error option"
  | Uuid4 string
  | SqliteSelect "string list" "error + row_dict list"

text \<open>
  The services are not deterministic: what one returns may depend on everything that was
  called before, so each takes the calls made so far. \<open>patent_data_db\<close> is the database
  file the server reads: its table, or the error that connecting and selecting raises.
  \<open>split_text\<close> is \<open>RecursiveCharacterTextSplitter(2500, 150).split_text\<close>, and
  \<open>unicode_lower\<close> is the Unicode database that \<open>str.lower()\<close> consults.
\<close>

record providers =
  generate_content :: "call list \<Rightarrow> string \<Rightarrow> string outcome"
  embed_content :: "call list \<Rightarrow> string \<Rightarrow> real list outcome"
  inference_embed :: "call list \<Rightarrow> string \<Rightarrow> string \<Rightarrow> sparse_embedding option outcome"
  index_query :: "call list \<Rightarrow> real list \<Rightarrow> sparse_embedding option option \<Rightarrow> int
                    \<Rightarrow> error + string list"
  index_upsert :: "call list \<Rightarrow> vector_data \<Rightarrow> error option"
  uuid4 :: "call list \<Rightarrow> string"
  patent_data_db :: "error + patent_chunk list"
  split_text :: "string \<Rightarrow> string list"
  unicode_lower :: unicode_db

section \<open>gemini\_helper.py\<close>

definition generate_dense_embedding ::
  "providers \<Rightarrow> call list \<Rightarrow> string \<Rightarrow> real list option \<times> call list" where
  "generate_dense_embedding env tr text =
     (if text = [] \<or> strip text = [] then (None, tr)
      else
        let result = embed_content env tr text;
            tr' = tr @ [EmbedContent text result]
        in case result of
             Raises e \<Rightarrow> (None, tr')
           | NoResponse \<Rightarrow> (None, tr')
           | Returns vs \<Rightarrow> (Some vs, tr'))"

definition summary_prompt :: "string \<Rightarrow> string \<Rightarrow> string" where
  "summary_prompt query result =
     nl @ ''        You are an expert patent analyst. Based on the user's query '' @ [CHR 0x27] @ query
     @ [CHR 0x27] @ '', provide a comprehensive and structured summary of the following patent details.''
     @ nl @ nl
     @ ''        Your summary should be broken down into the following sections:'' @ nl @ nl
     @ ''        1. **Invention Overview**'' @ nl
     @ ''        2. **Key Features & Components**'' @ nl
     @ ''        3. **Claims**'' @ nl
     @ ''        4. **Applications**'' @ nl @ nl
     @ ''        Only include information present in the given data. Do not make up facts.''
     @ nl @ nl
     @ ''        Patent details from DB:'' @ nl
     @ ''        '' @ result @ nl
     @ ''        ''"

text \<open>
  \<open>response.text.strip()\<close> inside \<open>try\<close>: a raise of the call and a response without
  text both end in the handler, which returns the empty string.
\<close>

definition generate_summary ::
  "providers \<Rightarrow> call list \<Rightarrow> string \<Rightarrow> string \<Rightarrow> string \<times> call list" where
  "generate_summary env tr query result =
     (let prompt = summary_prompt query result;
          response = generate_content env tr prompt;
          tr' = tr @ [GenerateContent prompt response]
      in case response of
           Raises e \<Rightarrow> ('''', tr')
         | NoResponse \<Rightarrow> ('''', tr')
         | Returns text \<Rightarrow> (strip text, tr'))"

definition classify_prompt :: "string \<Rightarrow> string" where
  "classify_prompt query =
     nl @ ''    You are a query classifier for a Patent Q&A system.'' @ nl @ nl
     @ ''    Categories:'' @ nl
     @ ''    - 'irrelevant' '' @ rightarrow
     @ '' Query is NOT related to patents, inventions, or intellectual property.'' @ nl
     @ ''    - 'generic' '' @ rightarrow
     @ '' Query IS related to patents but is broad/general.'' @ nl
     @ ''    - 'specific' '' @ rightarrow
     @ '' Query is related to patents and is specific enough that it might match a document in a patent database.''
     @ nl @ nl
     @ ''    Respond with exactly one word: irrelevant, generic, or specific.'' @ nl @ nl
     @ ''    Query: '' @ query @ nl
     @ ''    ''"

definition classify_query_type ::
  "providers \<Rightarrow> call list \<Rightarrow> string \<Rightarrow> string \<times> call list" where
  "classify_query_type env tr query =
     (let prompt = classify_prompt query;
          response = generate_content env tr prompt;
          tr' = tr @ [GenerateContent prompt response]
      in case response of
           Raises e \<Rightarrow> (''irrelevant'', tr')
         | NoResponse \<Rightarrow> (''irrelevant'', tr')
         | Returns text \<Rightarrow>
             let category = lower (unicode_lower env) (strip text)
             in if category \<notin> set [''irrelevant'', ''generic'', ''specific'']
                then (''irrelevant'', tr')
                else (category, tr'))"

definition generic_prompt :: "string \<Rightarrow> string" where
  "generic_prompt query =
     nl @ ''        You are an expert in intellectual property law and patents.'' @ nl
     @ ''        Answer the following general question in a clear, concise, and accurate manner:''
     @ nl @ nl
     @ ''        Question: '' @ query @ nl @ nl
     @ ''        Provide structured and informative content without unnecessary details.'' @ nl
     @ ''        ''"

definition generate_generic_answer ::
  "providers \<Rightarrow> call list \<Rightarrow> string \<Rightarrow> string \<times> call list" where
  "generate_generic_answer env tr query =
     (let prompt = generic_prompt query;
          response = generate_content env tr prompt;
          tr' = tr @ [GenerateContent prompt response]
      in case response of
           Raises e \<Rightarrow> (''Unable to generate a response.'', tr')
         | NoResponse \<Rightarrow> (''Unable to generate a response.'', tr')
         | Returns text \<Rightarrow> (strip text, tr'))"

section \<open>pinecone\_helper.py\<close>

text \<open>
  Every failure of \<open>generate_sparse_embedding\<close> is caught inside it and gives \<open>None\<close>:
  a raise, a response without data, and data in which no sparse indices and values are
  found. An empty or blank text gives \<open>None\<close> before the service is called.
\<close>

definition generate_sparse_embedding ::
  "providers \<Rightarrow> call list \<Rightarrow> string \<Rightarrow> bool \<Rightarrow> sparse_embedding option \<times> call list" where
  "generate_sparse_embedding env tr text for_query =
     (if text = [] \<or> strip text = [] then (None, tr)
      else
        let input_type = (if for_query then ''query'' else ''passage'');
            response = inference_embed env tr text input_type;
            tr' = tr @ [InferenceEmbed text input_type response]
        in case response of
             Raises e \<Rightarrow> (None, tr')
           | NoResponse \<Rightarrow> (None, tr')
           | Returns None \<Rightarrow> (None, tr')
           | Returns (Some sp) \<Rightarrow> (Some sp, tr'))"

text \<open>
  The hybrid upsert, then on a raise the dense-only one; a raise of that one is printed
  and swallowed. A sparse embedding that is \<open>None\<close> gives the dense-only format at once.
\<close>

definition upsert_hybrid_vector ::
  "providers \<Rightarrow> call list \<Rightarrow> string \<Rightarrow> real list \<Rightarrow> sparse_embedding option
     \<Rightarrow> (string \<times> string) list \<Rightarrow> call list" where
  "upsert_hybrid_vector env tr vid dense_embedding sparse_embedding metadata =
     (let vdata = \<lparr>vd_id = vid, vd_values = dense_embedding, vd_metadata = metadata,
                   vd_sparse_values = sparse_embedding\<rparr>;
          r = index_upsert env tr vdata;
          tr1 = tr @ [IndexUpsert vdata r]
      in case r of
           None \<Rightarrow> tr1
         | Some e \<Rightarrow>
             let fallback = \<lparr>vd_id = vid, vd_values = dense_embedding, vd_metadata = metadata,
                             vd_sparse_values = None\<rparr>;
                 r2 = index_upsert env tr1 fallback
             in tr1 @ [IndexUpsert fallback r2])"

section \<open>sqlite\_helper.py\<close>

text \<open>
  \<open>init_sqlite\<close> connects and creates the table when it is missing: it gives the table as
  it is, or raises. \<open>INSERT OR REPLACE\<close> deletes the row that has the key and adds the new
  one.
\<close>

definition init_sqlite :: "error + patent_chunk list \<Rightarrow> error + patent_chunk list" where
  "init_sqlite db = (case db of Inl e \<Rightarrow> Inl e | Inr table \<Rightarrow> Inr table)"

definition insert_metadata ::
  "patent_chunk list \<Rightarrow> string \<Rightarrow> string \<Rightarrow> string \<Rightarrow> string \<Rightarrow> string \<Rightarrow> string \<Rightarrow> string
     \<Rightarrow> patent_chunk list" where
  "insert_metadata table vid pn ti de ab cl ds =
     filter (\<lambda>r. vector_id r \<noteq> vid) table
     @ [\<lparr>vector_id = vid, patent_number = Some pn, title = Some ti, description = Some de,
         abstract = Some ab, claims_text = Some cl, detailed_summary = Some ds\<rparr>]"

section \<open>api\_server.py\<close>

record conversation_turn =
  question :: string
  answer :: "string option"

record search_request =
  query :: string
  history :: "conversation_turn list option"
  top_k :: int
  hybrid :: bool
  summary :: bool

text \<open>The values of a response dictionary: a string, a flag, or the list of results.\<close>

datatype jvalue = JStr string | JBool bool | JResults "row_dict list"

type_synonym response = "(string \<times> jvalue) list"

subsection \<open>fetch\_metadata\_from\_sqlite\<close>

text \<open>The dictionary built from a selected row: the four selected columns.\<close>

definition row_dict_of :: "patent_chunk \<Rightarrow> row_dict" where
  "row_dict_of row =
     [(''vector_id'', Some (vector_id row)),
      (''patent_number'', patent_number row),
      (''title'', title row),
      (''detailed_summary'', detailed_summary row)]"

text \<open>
  \<open>SELECT ... WHERE vector_id IN (?, ..., ?)\<close>: the rows of the table whose key is among
  the identifiers, each once. SQL leaves their order open; they are taken in the order of
  the table, and no property below depends on the order. The bound of SQLite on the
  number of \<open>?\<close> in one statement, a constant of its build, is left out.
\<close>

definition fetch_metadata_from_sqlite ::
  "error + patent_chunk list \<Rightarrow> string list \<Rightarrow> error + row_dict list" where
  "fetch_metadata_from_sqlite db vector_ids =
     (case db of
        Inl e \<Rightarrow> Inl e
      | Inr table \<Rightarrow> Inr (map row_dict_of (filter (\<lambda>row. vector_id row \<in> set vector_ids) table)))"

subsection \<open>check\_followup\_relevance\_multi\<close>

record followup_relevance =
  is_related :: bool
  related_to_index :: "nat option"
  related_turn :: "conversation_turn option"

text \<open>\<open>turn.answer or ''\<close>.\<close>

definition answer_or_empty :: "conversation_turn \<Rightarrow> string" where
  "answer_or_empty turn = (case answer turn of None \<Rightarrow> [] | Some a \<Rightarrow> a)"

definition followup_prompt :: "conversation_turn \<Rightarrow> string \<Rightarrow> string" where
  "followup_prompt turn new_question =
     nl @ ''        Previous question: '' @ question turn @ nl
     @ ''        Previous answer: '' @ answer_or_empty turn @ nl
     @ ''        New follow-up question: '' @ new_question @ nl @ nl
     @ ''        Is the new follow-up question relevant to the previous question and its answer?''
     @ nl
     @ ''        Consider topics, themes, technical domains, and conceptual relationships.'' @ nl
     @ ''        Respond only with 'yes' or 'no'.'' @ nl
     @ ''        ''"

text \<open>
  The loop over \<open>enumerate(reversed(relevant_turns))\<close>: \<open>n\<close> is \<open>len(relevant_turns)\<close>,
  \<open>i\<close> the position in the reversed list, never above \<open>n - 1\<close>.
\<close>

fun followup_loop ::
  "providers \<Rightarrow> nat \<Rightarrow> string \<Rightarrow> call list \<Rightarrow> nat \<Rightarrow> conversation_turn list
     \<Rightarrow> followup_relevance \<times> call list" where
  "followup_loop env n new_question tr i [] =
     (\<lparr>is_related = False, related_to_index = None, related_turn = None\<rparr>, tr)"
| "followup_loop env n new_question tr i (turn # rest) =
     (case generate_content env tr (followup_prompt turn new_question) of
        Raises e \<Rightarrow>
          followup_loop env n new_question
            (tr @ [GenerateContent (followup_prompt turn new_question) (Raises e)]) (Suc i) rest
      | NoResponse \<Rightarrow>
          followup_loop env n new_question
            (tr @ [GenerateContent (followup_prompt turn new_question) NoResponse]) (Suc i) rest
      | Returns t \<Rightarrow>
          if prefix ''yes'' (lower (unicode_lower env) (strip t))
             \<or> prefix ''y'' (lower (unicode_lower env) (strip t))
          then (\<lparr>is_related = True, related_to_index = Some (n - 1 - i),
                 related_turn = Some turn\<rparr>,
                tr @ [GenerateContent (followup_prompt turn new_question) (Returns t)])
          else followup_loop env n new_question
                 (tr @ [GenerateContent (followup_prompt turn new_question) (Returns t)])
                 (Suc i) rest)"

definition check_followup_relevance_multi ::
  "providers \<Rightarrow> call list \<Rightarrow> conversation_turn list \<Rightarrow> string
     \<Rightarrow> followup_relevance \<times> call list" where
  "check_followup_relevance_multi env tr relevant_turns new_question =
     followup_loop env (length relevant_turns) new_question tr 0 (rev relevant_turns)"

text \<open>
  For the statement of the relatedness scan. An answer of the service is affirmative when
  it has a text that, stripped and lower-cased, starts with \<open>yes\<close> or \<open>y\<close>: the test of
  \<open>check_followup_relevance_multi\<close>. \<open>scan_answers\<close> are the answers the service gives
  when the turns of a list are asked one after the other, each call seeing those before.
\<close>

definition affirmative :: "unicode_db \<Rightarrow> string outcome \<Rightarrow> bool" where
  "affirmative ucd response =
     (case response of
        Returns t \<Rightarrow> prefix ''yes'' (lower ucd (strip t)) \<or> prefix ''y'' (lower ucd (strip t))
      | _ \<Rightarrow> False)"

fun scan_answers ::
  "providers \<Rightarrow> string \<Rightarrow> call list \<Rightarrow> conversation_turn list \<Rightarrow> string outcome list" where
  "scan_answers env new_question tr [] = []"
| "scan_answers env new_question tr (turn # rest) =
     generate_content env tr (followup_prompt turn new_question)
     # scan_answers env new_question
         (tr @ [GenerateContent (followup_prompt turn new_question)
                  (generate_content env tr (followup_prompt turn new_question))]) rest"

definition asked :: "string \<Rightarrow> conversation_turn \<Rightarrow> string outcome \<Rightarrow> call" where
  "asked new_question turn response =
     GenerateContent (followup_prompt turn new_question) response"

subsection \<open>search\_patents\<close>

text \<open>
  The loop that collects \<open>relevant_turns\<close>: a turn is appended when its answer is truthy
  (present and not empty) and its lower-cased answer does not contain the marker.
\<close>

fun relevant_turns_loop ::
  "unicode_db \<Rightarrow> conversation_turn list \<Rightarrow> conversation_turn list
     \<Rightarrow> conversation_turn list" where
  "relevant_turns_loop ucd relevant_turns [] = relevant_turns"
| "relevant_turns_loop ucd relevant_turns (turn # rest) =
     (case answer turn of
        None \<Rightarrow> relevant_turns_loop ucd relevant_turns rest
      | Some a \<Rightarrow>
          if a \<noteq> [] \<and> \<not> sublist ''not relevant to patents'' (lower ucd a)
          then relevant_turns_loop ucd (relevant_turns @ [turn]) rest
          else relevant_turns_loop ucd relevant_turns rest)"

definition technical_terms :: "string list" where
  "technical_terms =
     [''microprocessor'', ''pipeline'', ''semiconductor'', ''AI'', ''neural'', ''cache'',
      ''encryption'', ''robotics'', ''sensor'', ''optics'']"

text \<open>\<open>any(term.lower() in query_text.lower() for term in technical_terms)\<close>.\<close>

definition force_specific_of :: "unicode_db \<Rightarrow> string \<Rightarrow> bool" where
  "force_specific_of ucd query_text =
     list_ex (\<lambda>term. sublist (lower ucd term) (lower ucd query_text)) technical_terms"

definition summary_keywords :: "string list" where
  "summary_keywords =
     [''summary'', ''summarize'', ''explain'', ''details'', ''list'', ''points'', ''highlight'',
      ''brief'', ''short'', ''lines'', ''bullet'']"

text \<open>\<open>any(word in lowered for word in summary_keywords)\<close>.\<close>

definition is_summary_request_of :: "string \<Rightarrow> bool" where
  "is_summary_request_of lowered = list_ex (\<lambda>word. sublist word lowered) summary_keywords"

text \<open>\<open>index.query\<close> and the reading of the identifiers of its matches.\<close>

definition query_index ::
  "providers \<Rightarrow> call list \<Rightarrow> real list \<Rightarrow> sparse_embedding option option \<Rightarrow> int
     \<Rightarrow> (error + string list) \<times> call list" where
  "query_index env tr dense sparse k =
     (let r = index_query env tr dense sparse k
      in (r, tr @ [IndexQuery dense sparse k r]))"

text \<open>The call of \<open>fetch_metadata_from_sqlite\<close> on the database of the server.\<close>

definition fetch_results ::
  "providers \<Rightarrow> call list \<Rightarrow> string list \<Rightarrow> (error + row_dict list) \<times> call list" where
  "fetch_results env tr vector_ids =
     (let r = fetch_metadata_from_sqlite (patent_data_db env) vector_ids
      in (r, tr @ [SqliteSelect vector_ids r]))"

text \<open>\<open>[r["detailed_summary"] for r in results if r.get("detailed_summary")]\<close>.\<close>

definition summaries_of :: "row_dict list \<Rightarrow> string list" where
  "summaries_of results =
     concat (map (\<lambda>r. case map_of r ''detailed_summary'' of
                         Some (Some s) \<Rightarrow> (if s \<noteq> [] then [s] else [])
                       | _ \<Rightarrow> []) results)"

text \<open>
  The retrieval block, which the source has three times (fresh query, unrelated new topic,
  related follow-up). The copies differ in the search text, in the message of the answer
  given when nothing matches, and in the keys added at the end of the dictionary
  (\<open>related\<close>, \<open>note\<close>): \<open>tags_nomatch\<close> for the no-match answer, \<open>tags_results\<close> for the
  results. \<open>Inl\<close> is an exception that leaves the block.
\<close>

definition retrieval ::
  "providers \<Rightarrow> search_request \<Rightarrow> call list \<Rightarrow> string \<Rightarrow> string \<Rightarrow> response \<Rightarrow> response
     \<Rightarrow> (error + response) \<times> call list" where
  "retrieval env request tr text nomatch_message tags_nomatch tags_results =
     (case generate_dense_embedding env tr text of (dense_emb, tr1) \<Rightarrow>
        (case dense_emb of
           None \<Rightarrow> (Inr [(''error'', JStr ''Failed to generate dense embedding.'')], tr1)
         | Some dense \<Rightarrow>
             if dense = [] then (Inr [(''error'', JStr ''Failed to generate dense embedding.'')], tr1)
             else
               (case (if hybrid request
                      then (case generate_sparse_embedding env tr1 text False of
                              (sparse_emb, tr2) \<Rightarrow>
                                query_index env tr2 dense (Some sparse_emb) (top_k request))
                      else query_index env tr1 dense None (top_k request)) of
                  (Inl e, tr3) \<Rightarrow> (Inl e, tr3)
                | (Inr vector_ids, tr3) \<Rightarrow>
                    if vector_ids = [] then
                      (case generate_generic_answer env tr3 text of (fallback_answer, tr4) \<Rightarrow>
                         (Inr ([(''results'', JResults []),
                                (''message'', JStr nomatch_message),
                                (''generic_answer'', JStr fallback_answer)] @ tags_nomatch), tr4))
                    else
                      (case fetch_results env tr3 vector_ids of
                         (Inl e, tr4) \<Rightarrow> (Inl e, tr4)
                       | (Inr results, tr4) \<Rightarrow>
                           if summary request then
                             (let combined_text = join '' '' (summaries_of results)
                              in case (if strip combined_text \<noteq> []
                                       then generate_summary env tr4 text combined_text
                                       else (''No content available for summary.'', tr4)) of
                                   (live_summary, tr5) \<Rightarrow>
                                     (Inr ([(''results'', JResults results),
                                            (''live_summary'', JStr live_summary)]
                                           @ tags_results), tr5))
                           else (Inr ([(''results'', JResults results)] @ tags_results), tr4)))))"

definition augmented_query_of :: "conversation_turn \<Rightarrow> string \<Rightarrow> string" where
  "augmented_query_of turn query_text =
     ''Previous Question: '' @ question turn @ nl
     @ ''Previous Answer: '' @ answer_or_empty turn @ nl
     @ ''Follow-up Question: '' @ query_text"

definition rejection_message :: string where
  "rejection_message = ''Your query is not relevant to patents or intellectual property.''"

text \<open>
  The body of the \<open>try\<close> of \<open>search_patents\<close>. The first component is the dictionary
  returned, or the exception that leaves the body; the second the calls made, from none.
  A relevance result that is related without turn or index makes \<open>related_index + 1\<close>
  raise a \<open>TypeError\<close>.
\<close>

definition search_patents_body ::
  "providers \<Rightarrow> search_request \<Rightarrow> (error + response) \<times> call list" where
  "search_patents_body env request =
     (let query_text = strip (query request);
          hist = (case history request of None \<Rightarrow> [] | Some h \<Rightarrow> h);
          relevant_turns = relevant_turns_loop (unicode_lower env) [] hist
      in
      if relevant_turns = [] then
        (case classify_query_type env [] query_text of (query_type, tr1) \<Rightarrow>
           let force_specific = force_specific_of (unicode_lower env) query_text
           in
           if query_type = ''irrelevant'' \<and> \<not> force_specific then
             (Inr [(''results'', JResults []), (''message'', JStr rejection_message)], tr1)
           else if query_type = ''generic'' \<and> \<not> force_specific then
             (case generate_generic_answer env tr1 query_text of (answer_text, tr2) \<Rightarrow>
                (Inr [(''results'', JResults []),
                      (''message'',
                       JStr ''Your query is patent-related but too general; here's a direct answer.''),
                      (''generic_answer'', JStr answer_text)], tr2))
           else
             retrieval env request tr1 query_text
               ''No relevant matches found; here's a direct Gemini answer.'' [] [])
      else
        (let lowered = lower (unicode_lower env) query_text;
             is_summary_request = is_summary_request_of lowered
         in
         if is_summary_request then
           (let last_relevant_turn = last relevant_turns
            in case generate_summary env [] query_text (answer_or_empty last_relevant_turn) of
                 (summary_text, tr1) \<Rightarrow>
                   (Inr [(''results'', JResults []),
                         (''live_summary'', JStr summary_text),
                         (''related'', JBool True),
                         (''note'',
                          JStr (''Summary of previous response (Query #''
                                @ str_nat (length relevant_turns) @ '')''))], tr1))
         else
           (case classify_query_type env [] query_text of (current_query_type, tr1) \<Rightarrow>
              let force_specific = force_specific_of (unicode_lower env) query_text
              in
              if current_query_type = ''irrelevant'' \<and> \<not> force_specific then
                (Inr [(''results'', JResults []), (''message'', JStr rejection_message),
                      (''related'', JBool False)], tr1)
              else
                (case check_followup_relevance_multi env tr1 relevant_turns query_text of
                   (relevance_result, tr2) \<Rightarrow>
                     if \<not> is_related relevance_result then
                       (if current_query_type = ''generic'' \<and> \<not> force_specific then
                          (case generate_generic_answer env tr2 query_text of
                             (generic_answer, tr3) \<Rightarrow>
                               (Inr [(''results'', JResults []),
                                     (''message'',
                                      JStr ''This is a new topic unrelated to previous queries.''),
                                     (''generic_answer'', JStr generic_answer),
                                     (''related'', JBool False)], tr3))
                        else
                          retrieval env request tr2 query_text
                            ''No relevant matches found for this new topic.''
                            [(''related'', JBool False)] [(''related'', JBool False)])
                     else
                       (case (related_turn relevance_result,
                              related_to_index relevance_result) of
                          (Some related, Some related_index) \<Rightarrow>
                            (let augmented_query = augmented_query_of related query_text
                             in case classify_query_type env tr2 augmented_query of
                                  (followup_query_type, tr3) \<Rightarrow>
                                    if followup_query_type = ''generic'' then
                                      (case generate_generic_answer env tr3 augmented_query of
                                         (generic_answer, tr4) \<Rightarrow>
                                           (Inr [(''results'', JResults []),
                                                 (''message'',
                                                  JStr ''This follow-up is relevant but generic.''),
                                                 (''generic_answer'', JStr generic_answer),
                                                 (''related'', JBool True),
                                                 (''note'',
                                                  JStr (''Based on context from query #''
                                                        @ str_nat (related_index + 1)))], tr4))
                                    else
                                      retrieval env request tr3 augmented_query
                                        ''No relevant matches found for this follow-up.''
                                        [(''related'', JBool True),
                                         (''note'',
                                          JStr (''Based on context from query #''
                                                @ str_nat (related_index + 1)))]
                                        [(''related'', JBool True),
                                         (''note'',
                                          JStr (''Results based on context from query #''
                                                @ str_nat (related_index + 1)))])
                        | _ \<Rightarrow>
                            (Inl (Error
                               (''unsupported operand type(s) for +: 'NoneType' and 'int''
                                @ [CHR 0x27])),
                             tr2))))))"

text \<open>
  The handler: \<open>except Exception as e: return {"error": str(e)}\<close> around the body.
\<close>

definition search_patents :: "providers \<Rightarrow> search_request \<Rightarrow> response \<times> call list" where
  "search_patents env request =
     (case search_patents_body env request of
        (Inl e, tr) \<Rightarrow> ([(''error'', JStr (str_of_error e))], tr)
      | (Inr resp, tr) \<Rightarrow> (resp, tr))"

section \<open>data\_loader.py\<close>

text \<open>
  A patent file holds a JSON object. An entry of \<open>titles\<close>, \<open>abstracts\<close>,
  \<open>descriptions\<close> and of a claims group is a dictionary from keys to strings; a key of
  the object that is absent is \<open>None\<close>. \<open>claims\<close> is a list of groups, each with its own
  optional list \<open>claims\<close>.
\<close>

type_synonym entry = "string \<rightharpoonup> string"

record patent_json =
  pj_patent_number :: "string option"
  pj_titles :: "entry list option"
  pj_abstracts :: "entry list option"
  pj_descriptions :: "entry list option"
  pj_claims :: "entry list option list option"

text \<open>A file that cannot be opened or parsed is reported and passed over.\<close>

datatype patent_file = Unreadable | Loaded patent_json

fun extract_english_field :: "entry list \<Rightarrow> string \<Rightarrow> string" where
  "extract_english_field [] field_name = []"
| "extract_english_field (entry # entries) field_name =
     (if entry ''lang'' = Some ''EN''
      then (case entry field_name of None \<Rightarrow> [] | Some v \<Rightarrow> v)
      else extract_english_field entries field_name)"

text \<open>\<open>patent.get(key, [])\<close>.\<close>

definition get_list :: "'a list option \<Rightarrow> 'a list" where
  "get_list v = (case v of None \<Rightarrow> [] | Some xs \<Rightarrow> xs)"

definition patent_number_of :: "nat \<Rightarrow> patent_json \<Rightarrow> string" where
  "patent_number_of file_idx patent =
     (case pj_patent_number patent of
        None \<Rightarrow> ''patent_'' @ str_nat file_idx
      | Some n \<Rightarrow> n)"

text \<open>
  \<open>patent.get("claims", [{}])[0].get("claims", [])\<close>: the index raises on an empty list.
\<close>

definition claims_data_of :: "patent_json \<Rightarrow> error + entry list" where
  "claims_data_of patent =
     (case pj_claims patent of
        None \<Rightarrow> Inr []
      | Some [] \<Rightarrow> Inl (Error ''list index out of range'')
      | Some (first_group # _) \<Rightarrow> Inr (get_list first_group))"

definition claims_text_of :: "entry list \<Rightarrow> string" where
  "claims_text_of claims_data =
     join '' '' (map (\<lambda>c. case c ''paragraph_markup'' of None \<Rightarrow> [] | Some v \<Rightarrow> v)
                     (filter (\<lambda>c. c ''lang'' = Some ''EN'') claims_data))"

text \<open>
  What the run keeps: the rows of \<open>patent_chunks\<close> behind the cursor, the counter
  \<open>total_chunks\<close>, and the calls made to the services so far.
\<close>

record ingest_state =
  db_rows :: "patent_chunk list"
  total_chunks :: nat
  calls :: "call list"

text \<open>
  A call of \<open>generate_summary\<close> with a list of positional arguments. The function has the
  two required parameters \<open>query\<close> and \<open>result\<close>, so binding any other number of
  arguments raises a \<open>TypeError\<close> before its body, and its \<open>try\<close>, is entered.
\<close>

definition call_generate_summary ::
  "providers \<Rightarrow> call list \<Rightarrow> string list \<Rightarrow> error + string \<times> call list" where
  "call_generate_summary env tr args =
     (case args of
        [query_arg, result_arg] \<Rightarrow> Inr (generate_summary env tr query_arg result_arg)
      | [query_arg] \<Rightarrow>
          Inl (Error (''generate_summary() missing 1 required positional argument: 'result''
                      @ [CHR 0x27]))
      | _ \<Rightarrow> Inl (Error ''generate_summary() called with a wrong number of arguments''))"

text \<open>
  The loop over \<open>enumerate(chunks)\<close>. The identifier takes the first eight characters of
  a fresh UUID. A dense or a sparse embedding that is \<open>None\<close> ends the iteration; otherwise
  the vector is upserted, the row inserted and the counter incremented.
\<close>

fun process_chunks ::
  "providers \<Rightarrow> string \<Rightarrow> string \<Rightarrow> string \<Rightarrow> string \<Rightarrow> string \<Rightarrow> string
     \<Rightarrow> ingest_state \<Rightarrow> nat \<Rightarrow> string list \<Rightarrow> ingest_state" where
  "process_chunks env pn ti de ab cl ds st chunk_idx [] = st"
| "process_chunks env pn ti de ab cl ds st chunk_idx (chunk # chunks) =
     (let u = uuid4 env (calls st);
          tr1 = calls st @ [Uuid4 u];
          vid = pn @ ''_chunk_'' @ str_nat chunk_idx @ ''_'' @ take 8 u
      in case generate_dense_embedding env tr1 chunk of
           (None, tr2) \<Rightarrow>
             process_chunks env pn ti de ab cl ds (st\<lparr>calls := tr2\<rparr>) (Suc chunk_idx) chunks
         | (Some dense_embedding, tr2) \<Rightarrow>
             (case generate_sparse_embedding env tr2 chunk False of
                (None, tr3) \<Rightarrow>
                  process_chunks env pn ti de ab cl ds (st\<lparr>calls := tr3\<rparr>) (Suc chunk_idx) chunks
              | (Some sparse_embedding, tr3) \<Rightarrow>
                  process_chunks env pn ti de ab cl ds
                    \<lparr>db_rows = insert_metadata (db_rows st) vid pn ti de ab cl ds,
                     total_chunks = total_chunks st + 1,
                     calls = upsert_hybrid_vector env tr3 vid dense_embedding
                               (Some sparse_embedding)
                               [(''patent_number'', pn), (''title'', ti)]\<rparr>
                    (Suc chunk_idx) chunks))"

text \<open>
  The body of the loop over the files, for a file that was loaded: \<open>Inl\<close> is an exception
  that nothing catches, which ends the run.
\<close>

definition process_patent ::
  "providers \<Rightarrow> ingest_state \<Rightarrow> nat \<Rightarrow> patent_json \<Rightarrow> error + ingest_state" where
  "process_patent env st file_idx patent =
     (let pn = patent_number_of file_idx patent;
          ti = extract_english_field (get_list (pj_titles patent)) ''text'';
          ab = extract_english_field (get_list (pj_abstracts patent)) ''paragraph_markup'';
          de = extract_english_field (get_list (pj_descriptions patent)) ''paragraph_markup''
      in case claims_data_of patent of
           Inl e \<Rightarrow> Inl e
         | Inr claims_data \<Rightarrow>
             let cl = claims_text_of claims_data;
                 combined_text = strip (ab @ '' '' @ cl)
             in if combined_text = [] then Inr st
                else
                  (case call_generate_summary env (calls st) [combined_text] of
                     Inl e \<Rightarrow> Inl e
                   | Inr (ds, tr1) \<Rightarrow>
                       Inr (process_chunks env pn ti de ab cl ds (st\<lparr>calls := tr1\<rparr>) 0
                              (split_text env combined_text))))"

fun process_files ::
  "providers \<Rightarrow> ingest_state \<Rightarrow> nat \<Rightarrow> patent_file list \<Rightarrow> error + ingest_state" where
  "process_files env st file_idx [] = Inr st"
| "process_files env st file_idx (Unreadable # files) =
     process_files env st (Suc file_idx) files"
| "process_files env st file_idx (Loaded patent # files) =
     (case process_patent env st file_idx patent of
        Inl e \<Rightarrow> Inl e
      | Inr st' \<Rightarrow> process_files env st' (Suc file_idx) files)"

text \<open>
  The run: the table is opened, the files are processed from the counter 0, and the final
  state is what \<open>close_sqlite\<close> commits. The line printed last reports the counter.
\<close>

definition process_and_upsert_patents ::
  "providers \<Rightarrow> patent_file list \<Rightarrow> error + patent_chunk list \<Rightarrow> error + ingest_state" where
  "process_and_upsert_patents env files db =
     (case init_sqlite db of
        Inl e \<Rightarrow> Inl e
      | Inr table \<Rightarrow> process_files env \<lparr>db_rows = table, total_chunks = 0, calls = []\<rparr> 0 files)"

definition end_report :: "ingest_state \<Rightarrow> string" where
  "end_report st =
     [CHR 0xF0, CHR 0x9F, CHR 0x93, CHR 0x8A] @ '' Total Chunks Processed: ''
     @ str_nat (total_chunks st)"

section \<open>Concrete inputs\<close>

text \<open>
  A Unicode database that lower-cases U+0130 and U+212A as Python does and leaves every
  other character outside ASCII as it is.
\<close>

definition ucd_sample :: unicode_db where
  "ucd_sample s i =
     (if take 2 (drop i s) = [CHR 0xC4, CHR 0xB0] then [CHR 0x69, CHR 0xCC, CHR 0x87]
      else if take 3 (drop i s) = [CHR 0xE2, CHR 0x84, CHR 0xAA] then [CHR 0x6B]
      else if 1 \<le> i \<and> take 2 (drop (i - 1) s) = [CHR 0xC4, CHR 0xB0] then []
      else if 1 \<le> i \<and> take 3 (drop (i - 1) s) = [CHR 0xE2, CHR 0x84, CHR 0xAA] then []
      else if 2 \<le> i \<and> take 3 (drop (i - 2) s) = [CHR 0xE2, CHR 0x84, CHR 0xAA] then []
      else [s ! i])"

text \<open>A generation service that answers every prompt with the label \<open>Irrelevant\<close>.\<close>

definition env_irrelevant :: providers where
  "env_irrelevant =
     \<lparr>generate_content = (\<lambda>tr prompt. Returns '' Irrelevant''),
      embed_content = (\<lambda>tr text. Returns [1, 2]),
      inference_embed = (\<lambda>tr text input_type. NoResponse),
      index_query = (\<lambda>tr dense sparse k. Inr []),
      index_upsert = (\<lambda>tr v. None),
      uuid4 = (\<lambda>tr. ''0f8fad5b-d9cb-469f-a165-70867728950e''),
      patent_data_db = Inr [],
      split_text = (\<lambda>text. [text]),
      unicode_lower = ucd_sample\<rparr>"

definition weather_request :: search_request where
  "weather_request =
     \<lparr>query = ''What's the weather today?'', history = Some [], top_k = 5,
      hybrid = False, summary = False\<rparr>"

text \<open>A table of two rows, and a table of one row with every column filled.\<close>

definition two_rows :: "patent_chunk list" where
  "two_rows =
     [\<lparr>vector_id = ''a'', patent_number = Some ''US1'', title = Some ''Valve'',
       description = Some ''d1'', abstract = Some ''a1'', claims_text = Some ''c1'',
       detailed_summary = Some ''s1''\<rparr>,
      \<lparr>vector_id = ''b'', patent_number = Some ''US2'', title = Some ''Pump'',
       description = Some ''d2'', abstract = Some ''a2'', claims_text = Some ''c2'',
       detailed_summary = None\<rparr>]"

definition one_row :: "patent_chunk list" where
  "one_row =
     [\<lparr>vector_id = ''US1_chunk_0_0f8fad5b'', patent_number = Some ''US1'',
       title = Some ''Valve'', description = Some ''A valve.'', abstract = Some ''Abstract.'',
       claims_text = Some ''Claim 1.'', detailed_summary = Some ''Summary.''\<rparr>]"

text \<open>An outage: every call of the generation and of the embedding service raises.\<close>

definition env_outage :: providers where
  "env_outage =
     \<lparr>generate_content = (\<lambda>tr prompt. Raises (Error ''503 Service Unavailable'')),
      embed_content = (\<lambda>tr text. Raises (Error ''503 Service Unavailable'')),
      inference_embed = (\<lambda>tr text input_type. NoResponse),
      index_query = (\<lambda>tr dense sparse k. Inr []),
      index_upsert = (\<lambda>tr v. None),
      uuid4 = (\<lambda>tr. ''0f8fad5b-d9cb-469f-a165-70867728950e''),
      patent_data_db = Inr [],
      split_text = (\<lambda>text. [text]),
      unicode_lower = ucd_sample\<rparr>"

text \<open>
  A summariser that answers from what the prompt holds, and a follow-up that asks for a
  summary after two relevant turns, a rejected turn and an unanswered one.
\<close>

definition env_summarizer :: providers where
  "env_summarizer =
     \<lparr>generate_content =
        (\<lambda>tr prompt. if sublist ''Patent B claims a pump.'' prompt
                      then Returns '' 1. **Invention Overview** A pump. ''
                      else Returns ''No patent details were given.''),
      embed_content = (\<lambda>tr text. Returns [1, 2]),
      inference_embed = (\<lambda>tr text input_type. NoResponse),
      index_query = (\<lambda>tr dense sparse k. Inr []),
      index_upsert = (\<lambda>tr v. None),
      uuid4 = (\<lambda>tr. ''0f8fad5b-d9cb-469f-a165-70867728950e''),
      patent_data_db = Inr [],
      split_text = (\<lambda>text. [text]),
      unicode_lower = ucd_sample\<rparr>"

definition summarize_history :: "conversation_turn list" where
  "summarize_history =
     [\<lparr>question = ''valve patents'', answer = Some ''Patent A claims a valve.''\<rparr>,
      \<lparr>question = ''pump patents'', answer = Some ''Patent B claims a pump.''\<rparr>,
      \<lparr>question = ''the weather'',
       answer = Some ''Your query is Not Relevant to patents or intellectual property.''\<rparr>,
      \<lparr>question = ''and hinges?'', answer = None\<rparr>]"

definition summarize_request :: search_request where
  "summarize_request =
     \<lparr>query = '' Summarize that in 3 lines '', history = Some summarize_history,
      top_k = 5, hybrid = False, summary = False\<rparr>"

text \<open>
  A history of three relevant turns, and a service whose first call raises, whose second
  call answers no and whose later calls answer yes.
\<close>

definition three_turns :: "conversation_turn list" where
  "three_turns =
     [\<lparr>question = ''valve patents'', answer = Some ''Patent A claims a valve.''\<rparr>,
      \<lparr>question = ''pump patents'', answer = Some ''Patent B claims a pump.''\<rparr>,
      \<lparr>question = ''hinge patents'', answer = Some ''Patent C claims a hinge.''\<rparr>]"

definition env_scan :: providers where
  "env_scan =
     \<lparr>generate_content =
        (\<lambda>tr prompt. if length tr = 0 then Raises (Error ''deadline exceeded'')
                      else if length tr = 1 then Returns ''No.''
                      else Returns '' Yes, it is.''),
      embed_content = (\<lambda>tr text. Returns [1, 2]),
      inference_embed = (\<lambda>tr text input_type. NoResponse),
      index_query = (\<lambda>tr dense sparse k. Inr []),
      index_upsert = (\<lambda>tr v. None),
      uuid4 = (\<lambda>tr. ''0f8fad5b-d9cb-469f-a165-70867728950e''),
      patent_data_db = Inr [],
      split_text = (\<lambda>text. [text]),
      unicode_lower = ucd_sample\<rparr>"

text \<open>
  A patent file without abstract and without claims, a file with an abstract, and the
  state at the start of a run on an empty table.
\<close>

definition patent_without_text :: patent_json where
  "patent_without_text =
     \<lparr>pj_patent_number = Some ''US9'',
      pj_titles = Some [ [''lang'' \<mapsto> ''EN'', ''text'' \<mapsto> ''Hinge''] ],
      pj_abstracts = Some [ [''lang'' \<mapsto> ''DE'', ''paragraph_markup'' \<mapsto> ''Ein Scharnier.''] ],
      pj_descriptions = None,
      pj_claims = None\<rparr>"

definition patent_with_abstract :: patent_json where
  "patent_with_abstract =
     \<lparr>pj_patent_number = Some ''US7'',
      pj_titles = Some [ [''lang'' \<mapsto> ''EN'', ''text'' \<mapsto> ''Valve''] ],
      pj_abstracts = Some [ [''lang'' \<mapsto> ''EN'', ''paragraph_markup'' \<mapsto> ''A valve.''] ],
      pj_descriptions = None,
      pj_claims = None\<rparr>"

text \<open>A patent file without abstract whose list of claims groups is empty.\<close>

definition patent_with_empty_claims :: patent_json where
  "patent_with_empty_claims =
     \<lparr>pj_patent_number = Some ''US8'',
      pj_titles = Some [ [''lang'' \<mapsto> ''EN'', ''text'' \<mapsto> ''Gasket''] ],
      pj_abstracts = None,
      pj_descriptions = None,
      pj_claims = Some []\<rparr>"

definition start_state :: ingest_state where
  "start_state = \<lparr>db_rows = [], total_chunks = 0, calls = []\<rparr>"

text \<open>A call that writes to the vector index.\<close>

definition is_upsert :: "call \<Rightarrow> bool" where
  "is_upsert c = (case c of IndexUpsert v r \<Rightarrow> True | _ \<Rightarrow> False)"

text \<open>
  The exceptions that no helper catches are those of \<open>index.query\<close> and of the
  \<open>SELECT\<close>: \<open>raised\<close> is the exception a call ended with, if it is one of these, and
  \<open>uncaught\<close> lists them along a record of calls. A response is structured when it has
  an \<open>error\<close> message or a list of \<open>results\<close>.
\<close>

fun raised :: "call \<Rightarrow> error option" where
  "raised (IndexQuery dense sparse k r) = (case r of Inl e \<Rightarrow> Some e | Inr ids \<Rightarrow> None)"
| "raised (SqliteSelect ids r) = (case r of Inl e \<Rightarrow> Some e | Inr rows \<Rightarrow> None)"
| "raised c = None"

fun uncaught :: "call list \<Rightarrow> error list" where
  "uncaught [] = []"
| "uncaught (c # cs) = (case raised c of None \<Rightarrow> uncaught cs | Some e \<Rightarrow> e # uncaught cs)"

definition structured :: "response \<Rightarrow> bool" where
  "structured r =
     ((\<exists>m. map_of r ''error'' = Some (JStr m)) \<or> (\<exists>rs. map_of r ''results'' = Some (JResults rs)))"

text \<open>A vector index whose query raises, and a query with a technical term.\<close>

definition env_index_down :: providers where
  "env_index_down =
     \<lparr>generate_content = (\<lambda>tr prompt. Returns ''specific''),
      embed_content = (\<lambda>tr text. Returns [1, 2]),
      inference_embed = (\<lambda>tr text input_type. NoResponse),
      index_query = (\<lambda>tr dense sparse k. Inl (Error ''connection reset'')),
      index_upsert = (\<lambda>tr v. None),
      uuid4 = (\<lambda>tr. ''0f8fad5b-d9cb-469f-a165-70867728950e''),
      patent_data_db = Inr [],
      split_text = (\<lambda>text. [text]),
      unicode_lower = ucd_sample\<rparr>"

definition cache_request :: search_request where
  "cache_request =
     \<lparr>query = ''cache line'', history = None, top_k = 5, hybrid = False, summary = False\<rparr>"

text \<open>A vector index with one match, whose row is in the table of one row.\<close>

definition env_one_match :: providers where
  "env_one_match =
     \<lparr>generate_content = (\<lambda>tr prompt. Returns ''specific''),
      embed_content = (\<lambda>tr text. Returns [1, 2]),
      inference_embed = (\<lambda>tr text input_type. NoResponse),
      index_query = (\<lambda>tr dense sparse k. Inr [''US1_chunk_0_0f8fad5b'']),
      index_upsert = (\<lambda>tr v. None),
      uuid4 = (\<lambda>tr. ''0f8fad5b-d9cb-469f-a165-70867728950e''),
      patent_data_db = Inr one_row,
      split_text = (\<lambda>text. [text]),
      unicode_lower = ucd_sample\<rparr>"

text \<open>A dictionary of the four selected columns of a row of the table.\<close>

definition selected_columns :: "patent_chunk list \<Rightarrow> row_dict \<Rightarrow> bool" where
  "selected_columns table d =
     (\<exists>row\<in>set table.
        d = [(''vector_id'', Some (vector_id row)), (''patent_number'', patent_number row),
             (''title'', title row), (''detailed_summary'', detailed_summary row)])"

section \<open>The relevant turns\<close>

lemma relevant_turns_loop_filter:
  "relevant_turns_loop ucd acc hist =
     acc @ filter (\<lambda>t. \<exists>a. answer t = Some a \<and> a \<noteq> []
                           \<and> \<not> sublist ''not relevant to patents'' (lower ucd a)) hist"
  by (induction hist arbitrary: acc) (simp_all split: option.splits)

text \<open>
  C4, as the code has it: the relevant turns are exactly the turns of the history, in
  conversation order, whose answer is present, is not empty, and does not contain
  \<open>not relevant to patents\<close> once lower-cased.
\<close>

theorem relevant_turns_answered_unmarked:
  "relevant_turns_loop ucd [] hist =
     filter (\<lambda>t. \<exists>a. answer t = Some a \<and> a \<noteq> []
                      \<and> \<not> sublist ''not relevant to patents'' (lower ucd a)) hist
   \<and> subseq (relevant_turns_loop ucd [] hist) hist"
  by (simp add: relevant_turns_loop_filter)

text \<open>
  C4 as it is stated fails: a turn without an answer does not carry the marker, and it is
  not among the relevant turns.
\<close>

theorem relevant_turns_unanswered_counterexample:
  "\<not> sublist ''not relevant to patents''
        (lower ucd_sample (answer_or_empty \<lparr>question = ''What is a patent claim?'', answer = None\<rparr>))
   \<and> relevant_turns_loop ucd_sample [] [\<lparr>question = ''What is a patent claim?'', answer = None\<rparr>] = []"
  by (simp add: answer_or_empty_def lower_def)

section \<open>The metadata store\<close>

lemma count_key_distinct:
  "distinct (map f xs) \<Longrightarrow> length (filter (\<lambda>x. f x = v) xs) = (if v \<in> f ` set xs then 1 else 0)"
  by (induction xs) auto

lemma row_dict_of_vector_id:
  "map_of (row_dict_of r) ''vector_id'' = Some (Some (vector_id r))"
  by (simp add: row_dict_of_def)

lemma row_dict_of_inj:
  assumes "row_dict_of r = row_dict_of r'"
  shows "vector_id r = vector_id r'"
proof -
  have "map_of (row_dict_of r) ''vector_id'' = map_of (row_dict_of r') ''vector_id''"
    using assms by (rule arg_cong)
  then show ?thesis by (simp only: row_dict_of_vector_id option.inject)
qed

lemma distinct_row_dicts:
  "distinct (map vector_id rs) \<Longrightarrow> distinct (map row_dict_of rs)"
proof (induction rs)
  case Nil
  then show ?case by simp
next
  case (Cons r rs)
  have "row_dict_of r \<notin> row_dict_of ` set rs"
  proof
    assume "row_dict_of r \<in> row_dict_of ` set rs"
    then obtain r' where r': "r' \<in> set rs" "row_dict_of r = row_dict_of r'" by (rule imageE)
    from r'(2) have "vector_id r = vector_id r'" by (rule row_dict_of_inj)
    moreover from r'(1) have "vector_id r' \<in> vector_id ` set rs" by (rule imageI)
    ultimately have "vector_id r \<in> vector_id ` set rs" by simp
    with Cons.prems show False by simp
  qed
  with Cons show ?case by simp
qed

text \<open>
  C5: on a table whose key is unique (\<open>vector_id\<close> is the primary key), the fetch never
  fails because of an identifier; the result holds exactly one entry for each identifier
  of the list that has a row and none for any other identifier; and it holds no entry
  twice, so it holds duplicates only if the list does.
\<close>

theorem fetch_one_entry_per_matched_id:
  assumes "distinct (map vector_id table)"
  shows "\<exists>rows. fetch_metadata_from_sqlite (Inr table) vector_ids = Inr rows
           \<and> (\<forall>v. length (filter (\<lambda>d. map_of d ''vector_id'' = Some (Some v)) rows)
                    = (if v \<in> set vector_ids \<and> v \<in> vector_id ` set table then 1 else 0))
           \<and> distinct rows
           \<and> (\<not> distinct rows \<longrightarrow> \<not> distinct vector_ids)"
proof -
  let ?sel = "filter (\<lambda>row. vector_id row \<in> set vector_ids) table"
  let ?rows = "map row_dict_of ?sel"
  have fetch: "fetch_metadata_from_sqlite (Inr table) vector_ids = Inr ?rows"
    by (simp add: fetch_metadata_from_sqlite_def)
  have dsel: "distinct (map vector_id ?sel)"
    using assms by (simp add: distinct_map_filter)
  have cnt: "length (filter (\<lambda>d. map_of d ''vector_id'' = Some (Some v)) ?rows)
               = (if v \<in> set vector_ids \<and> v \<in> vector_id ` set table then 1 else 0)" for v
  proof -
    have "length (filter (\<lambda>d. map_of d ''vector_id'' = Some (Some v)) ?rows)
            = length (filter (\<lambda>r. vector_id r = v) ?sel)"
      by (simp only: filter_map length_map comp_def row_dict_of_vector_id option.inject)
    also have "\<dots> = (if v \<in> vector_id ` set ?sel then 1 else 0)"
      using dsel by (rule count_key_distinct)
    also have "\<dots> = (if v \<in> set vector_ids \<and> v \<in> vector_id ` set table then 1 else 0)"
      by auto
    finally show ?thesis .
  qed
  have drows: "distinct ?rows" using dsel by (rule distinct_row_dicts)
  show ?thesis
  proof (intro exI conjI allI impI)
    show "fetch_metadata_from_sqlite (Inr table) vector_ids = Inr ?rows" by (rule fetch)
    show "length (filter (\<lambda>d. map_of d ''vector_id'' = Some (Some v)) ?rows)
               = (if v \<in> set vector_ids \<and> v \<in> vector_id ` set table then 1 else 0)" for v
      by (rule cnt)
    show "distinct ?rows" by (rule drows)
    show "\<not> distinct vector_ids" if "\<not> distinct ?rows" using that drows by (rule notE)
  qed
qed

text \<open>An identifier without a row and an identifier given twice, on a table of two rows.\<close>

theorem fetch_one_entry_per_matched_id_witness:
  "distinct (map vector_id two_rows)
   \<and> (\<exists>rows. fetch_metadata_from_sqlite (Inr two_rows) [''b'', ''zz'', ''b''] = Inr rows
           \<and> (\<forall>v. length (filter (\<lambda>d. map_of d ''vector_id'' = Some (Some v)) rows)
                    = (if v \<in> set [''b'', ''zz'', ''b''] \<and> v \<in> vector_id ` set two_rows
                       then 1 else 0))
           \<and> distinct rows
           \<and> (\<not> distinct rows \<longrightarrow> \<not> distinct [''b'', ''zz'', ''b'']))"
proof -
  have h: "distinct (map vector_id two_rows)" by (simp add: two_rows_def)
  show ?thesis by (rule conjI[OF h fetch_one_entry_per_matched_id[OF h]])
qed

text \<open>
  C6 as it is stated fails: the record fetched for a row that has all seven columns has
  the four selected columns only; \<open>description\<close> (as \<open>abstract\<close> and \<open>claims_text\<close>) is
  not a key of it.
\<close>

theorem fetch_returns_four_columns_counterexample:
  "fetch_metadata_from_sqlite (Inr one_row) [''US1_chunk_0_0f8fad5b'']
     = Inr [ [(''vector_id'', Some ''US1_chunk_0_0f8fad5b''), (''patent_number'', Some ''US1''),
             (''title'', Some ''Valve''), (''detailed_summary'', Some ''Summary.'')]]
   \<and> map_of [(''vector_id'', Some ''US1_chunk_0_0f8fad5b''), (''patent_number'', Some ''US1''),
             (''title'', Some ''Valve''), (''detailed_summary'', Some ''Summary.'')]
        ''description''
       = None"
  by (simp add: fetch_metadata_from_sqlite_def one_row_def row_dict_of_def)

section \<open>Characters outside ASCII\<close>

text \<open>
  White space outside ASCII is stripped, and a lower case that holds ASCII letters is
  seen by the keyword tests: a no-break space around a label or before \<open>Yes\<close> changes
  nothing, and \<open>A\<close> followed by U+0130 holds the technical term \<open>ai\<close>.
\<close>

lemma strip_no_break_space:
  "strip ([CHR 0xC2, CHR 0xA0] @ ''generic'' @ [CHR 0xE2, CHR 0x80, CHR 0xA8, CHR 0x0A])
     = ''generic''"
  by code_simp

lemma no_break_space_yes_is_affirmative:
  "affirmative ucd_sample (Returns ([CHR 0xC2, CHR 0xA0] @ ''Yes''))"
  by code_simp

lemma dotted_capital_i_forces_specific:
  "force_specific_of ucd_sample (strip (''A'' @ [CHR 0xC4, CHR 0xB0] @ ''LE''))"
  by code_simp

section \<open>The classifier and the fresh query\<close>

lemma classify_label:
  "fst (classify_query_type env tr q) \<in> {''irrelevant'', ''generic'', ''specific''}"
  by (simp add: classify_query_type_def Let_def split: outcome.split)

lemma classify_trace:
  "snd (classify_query_type env tr q)
     = tr @ [GenerateContent (classify_prompt q) (generate_content env tr (classify_prompt q))]"
  by (simp add: classify_query_type_def Let_def split: outcome.split)

lemma classify_no_text:
  "\<forall>t. generate_content env tr (classify_prompt q) \<noteq> Returns t
     \<Longrightarrow> fst (classify_query_type env tr q) = ''irrelevant''"
  by (cases "generate_content env tr (classify_prompt q)")
     (simp_all add: classify_query_type_def Let_def)

lemma classify_other_text:
  "generate_content env tr (classify_prompt q) = Returns t
     \<Longrightarrow> lower (unicode_lower env) (strip t) \<notin> {''irrelevant'', ''generic'', ''specific''}
     \<Longrightarrow> fst (classify_query_type env tr q) = ''irrelevant''"
  by (simp add: classify_query_type_def Let_def)

lemma classify_label_text:
  "generate_content env tr (classify_prompt q) = Returns t
     \<Longrightarrow> lower (unicode_lower env) (strip t) \<in> {''irrelevant'', ''generic'', ''specific''}
     \<Longrightarrow> fst (classify_query_type env tr q) = lower (unicode_lower env) (strip t)"
  by (auto simp add: classify_query_type_def Let_def)

lemma force_specific_iff:
  "force_specific_of ucd q = (\<exists>term\<in>set technical_terms. sublist (lower ucd term) (lower ucd q))"
  by (simp add: force_specific_of_def list_ex_iff)

lemma body_fresh_irrelevant:
  assumes "relevant_turns_loop (unicode_lower env) []
             (case history request of None \<Rightarrow> [] | Some h \<Rightarrow> h) = []"
      and "fst (classify_query_type env [] (strip (query request))) = ''irrelevant''"
      and "\<not> force_specific_of (unicode_lower env) (strip (query request))"
  shows "search_patents_body env request =
           (Inr [(''results'', JResults []), (''message'', JStr rejection_message)],
            snd (classify_query_type env [] (strip (query request))))"
proof (cases "classify_query_type env [] (strip (query request))")
  case (Pair query_type tr1)
  with assms show ?thesis
    by (simp add: search_patents_body_def Let_def)
qed

text \<open>
  C3: a request without relevant turn, whose query is classified \<open>irrelevant\<close> and whose
  query text, lower-cased, contains no lower-cased technical term, gets the empty results
  and the rejection message, without \<open>generic_answer\<close> and without \<open>related\<close>; the one
  call made is the classification. The query text is the query stripped, as the router
  takes it.
\<close>

theorem fresh_irrelevant_query_rejected:
  assumes "relevant_turns_loop (unicode_lower env) []
             (case history request of None \<Rightarrow> [] | Some h \<Rightarrow> h) = []"
      and "fst (classify_query_type env [] (strip (query request))) = ''irrelevant''"
      and "\<not> (\<exists>term\<in>set technical_terms.
                sublist (lower (unicode_lower env) term)
                        (lower (unicode_lower env) (strip (query request))))"
  shows "search_patents env request =
           ([(''results'', JResults []), (''message'', JStr rejection_message)],
            [GenerateContent (classify_prompt (strip (query request)))
               (generate_content env [] (classify_prompt (strip (query request))))])
         \<and> map_of (fst (search_patents env request)) ''generic_answer'' = None
         \<and> map_of (fst (search_patents env request)) ''related'' = None"
proof -
  have nf: "\<not> force_specific_of (unicode_lower env) (strip (query request))"
    unfolding force_specific_iff by (rule assms(3))
  have body: "search_patents_body env request =
           (Inr [(''results'', JResults []), (''message'', JStr rejection_message)],
            snd (classify_query_type env [] (strip (query request))))"
    using assms(1) assms(2) nf by (rule body_fresh_irrelevant)
  have sp: "search_patents env request =
           ([(''results'', JResults []), (''message'', JStr rejection_message)],
            [GenerateContent (classify_prompt (strip (query request)))
               (generate_content env [] (classify_prompt (strip (query request))))])"
    by (simp add: search_patents_def body classify_trace)
  show ?thesis by (simp add: sp)
qed

theorem fresh_irrelevant_query_rejected_witness:
  "relevant_turns_loop (unicode_lower env_irrelevant) []
     (case history weather_request of None \<Rightarrow> [] | Some h \<Rightarrow> h) = []
   \<and> fst (classify_query_type env_irrelevant [] (strip (query weather_request))) = ''irrelevant''
   \<and> \<not> (\<exists>term\<in>set technical_terms.
           sublist (lower (unicode_lower env_irrelevant) term)
                   (lower (unicode_lower env_irrelevant) (strip (query weather_request))))
   \<and> fst (search_patents env_irrelevant weather_request)
       = [(''results'', JResults []), (''message'', JStr rejection_message)]"
proof -
  have a1: "relevant_turns_loop (unicode_lower env_irrelevant) []
              (case history weather_request of None \<Rightarrow> [] | Some h \<Rightarrow> h) = []"
    by (simp add: weather_request_def)
  have a2: "fst (classify_query_type env_irrelevant [] (strip (query weather_request)))
              = ''irrelevant''"
    by code_simp
  have a3: "\<not> (\<exists>term\<in>set technical_terms.
           sublist (lower (unicode_lower env_irrelevant) term)
                   (lower (unicode_lower env_irrelevant) (strip (query weather_request))))"
    by code_simp
  have c: "fst (search_patents env_irrelevant weather_request)
       = [(''results'', JResults []), (''message'', JStr rejection_message)]"
    by (simp only: conjunct1[OF fresh_irrelevant_query_rejected[OF a1 a2 a3]] fst_conv)
  show ?thesis by (rule conjI[OF a1 conjI[OF a2 conjI[OF a3 c]]])
qed

section \<open>The classifier under an outage\<close>

text \<open>
  C10: the classifier gives one of the three labels whatever the service does. It gives
  \<open>irrelevant\<close> when the call raises or returns no text, and when the text, stripped and
  lower-cased, is none of the three labels; a text that is a label gives that label. So
  a request without relevant turn, whose query text holds no technical term, is rejected
  when the service is down.
\<close>

theorem classify_query_type_total:
  "fst (classify_query_type env tr q) \<in> {''irrelevant'', ''generic'', ''specific''}
   \<and> ((\<forall>t. generate_content env tr (classify_prompt q) \<noteq> Returns t)
        \<longrightarrow> fst (classify_query_type env tr q) = ''irrelevant'')
   \<and> (\<forall>t. generate_content env tr (classify_prompt q) = Returns t
            \<and> lower (unicode_lower env) (strip t) \<notin> {''irrelevant'', ''generic'', ''specific''}
        \<longrightarrow> fst (classify_query_type env tr q) = ''irrelevant'')
   \<and> (\<forall>t. generate_content env tr (classify_prompt q) = Returns t
            \<and> lower (unicode_lower env) (strip t) \<in> {''irrelevant'', ''generic'', ''specific''}
        \<longrightarrow> fst (classify_query_type env tr q) = lower (unicode_lower env) (strip t))
   \<and> (relevant_turns_loop (unicode_lower env) []
          (case history request of None \<Rightarrow> [] | Some h \<Rightarrow> h) = []
        \<and> \<not> (\<exists>term\<in>set technical_terms.
                sublist (lower (unicode_lower env) term)
                        (lower (unicode_lower env) (strip (query request))))
        \<and> (\<forall>t. generate_content env [] (classify_prompt (strip (query request))) \<noteq> Returns t)
        \<longrightarrow> fst (search_patents env request)
              = [(''results'', JResults []), (''message'', JStr rejection_message)])"
proof (intro conjI impI allI)
  show "fst (classify_query_type env tr q) \<in> {''irrelevant'', ''generic'', ''specific''}"
    by (rule classify_label)
  show "fst (classify_query_type env tr q) = ''irrelevant''"
    if "\<forall>t. generate_content env tr (classify_prompt q) \<noteq> Returns t"
    using that by (rule classify_no_text)
  show "fst (classify_query_type env tr q) = ''irrelevant''"
    if "generate_content env tr (classify_prompt q) = Returns t
            \<and> lower (unicode_lower env) (strip t) \<notin> {''irrelevant'', ''generic'', ''specific''}"
    for t
  proof -
    from that have r: "generate_content env tr (classify_prompt q) = Returns t"
      by (rule conjunct1)
    from that have n: "lower (unicode_lower env) (strip t)
                         \<notin> {''irrelevant'', ''generic'', ''specific''}"
      by (rule conjunct2)
    from r n show ?thesis by (rule classify_other_text)
  qed
  show "fst (classify_query_type env tr q) = lower (unicode_lower env) (strip t)"
    if "generate_content env tr (classify_prompt q) = Returns t
            \<and> lower (unicode_lower env) (strip t) \<in> {''irrelevant'', ''generic'', ''specific''}"
    for t
  proof -
    from that have r: "generate_content env tr (classify_prompt q) = Returns t"
      by (rule conjunct1)
    from that have n: "lower (unicode_lower env) (strip t)
                         \<in> {''irrelevant'', ''generic'', ''specific''}"
      by (rule conjunct2)
    from r n show ?thesis by (rule classify_label_text)
  qed
  show "fst (search_patents env request)
              = [(''results'', JResults []), (''message'', JStr rejection_message)]"
    if h: "relevant_turns_loop (unicode_lower env) []
          (case history request of None \<Rightarrow> [] | Some h \<Rightarrow> h) = []
        \<and> \<not> (\<exists>term\<in>set technical_terms.
                sublist (lower (unicode_lower env) term)
                        (lower (unicode_lower env) (strip (query request))))
        \<and> (\<forall>t. generate_content env [] (classify_prompt (strip (query request))) \<noteq> Returns t)"
  proof -
    from h have a1: "relevant_turns_loop (unicode_lower env) []
          (case history request of None \<Rightarrow> [] | Some h \<Rightarrow> h) = []"
      by (rule conjunct1)
    have a3: "\<forall>t. generate_content env [] (classify_prompt (strip (query request))) \<noteq> Returns t"
      by (rule conjunct2[OF conjunct2[OF h]])
    have nf: "\<not> force_specific_of (unicode_lower env) (strip (query request))"
      unfolding force_specific_iff by (rule conjunct1[OF conjunct2[OF h]])
    from a3 have irr: "fst (classify_query_type env [] (strip (query request))) = ''irrelevant''"
      by (rule classify_no_text)
    from a1 irr nf have "search_patents_body env request =
           (Inr [(''results'', JResults []), (''message'', JStr rejection_message)],
            snd (classify_query_type env [] (strip (query request))))"
      by (rule body_fresh_irrelevant)
    then show ?thesis by (simp add: search_patents_def)
  qed
qed

theorem classify_query_type_total_witness:
  "(\<forall>t. generate_content env_outage [] (classify_prompt (strip (query weather_request)))
          \<noteq> Returns t)
   \<and> relevant_turns_loop (unicode_lower env_outage) []
        (case history weather_request of None \<Rightarrow> [] | Some h \<Rightarrow> h) = []
   \<and> \<not> (\<exists>term\<in>set technical_terms.
           sublist (lower (unicode_lower env_outage) term)
                   (lower (unicode_lower env_outage) (strip (query weather_request))))
   \<and> fst (classify_query_type env_outage [] (strip (query weather_request))) = ''irrelevant''
   \<and> fst (search_patents env_outage weather_request)
       = [(''results'', JResults []), (''message'', JStr rejection_message)]"
proof -
  have a0: "\<forall>t. generate_content env_outage [] (classify_prompt (strip (query weather_request)))
                 \<noteq> Returns t"
    by (simp add: env_outage_def)
  have a1: "relevant_turns_loop (unicode_lower env_outage) []
              (case history weather_request of None \<Rightarrow> [] | Some h \<Rightarrow> h) = []"
    by (simp add: weather_request_def)
  have a2: "\<not> (\<exists>term\<in>set technical_terms.
           sublist (lower (unicode_lower env_outage) term)
                   (lower (unicode_lower env_outage) (strip (query weather_request))))"
    by code_simp
  note t = classify_query_type_total[of env_outage "[]" "strip (query weather_request)"
             weather_request]
  have c1: "fst (classify_query_type env_outage [] (strip (query weather_request)))
              = ''irrelevant''"
    by (rule mp[OF conjunct1[OF conjunct2[OF t]] a0])
  have c2: "fst (search_patents env_outage weather_request)
       = [(''results'', JResults []), (''message'', JStr rejection_message)]"
    by (rule mp[OF conjunct2[OF conjunct2[OF conjunct2[OF conjunct2[OF t]]]]
                   conjI[OF a1 conjI[OF a2 a0]]])
  show ?thesis by (rule conjI[OF a0 conjI[OF a1 conjI[OF a2 conjI[OF c1 c2]]]])
qed

section \<open>The summary request\<close>

lemma sublist_skip: "sublist x ys \<Longrightarrow> sublist x (zs @ ys)"
  by (auto simp add: sublist_append)

lemma sublist_here: "sublist x (x @ ys)"
  by (rule sublist_append_rightI)

text \<open>The prompt of a summary holds the query and the text to summarise.\<close>

lemma summary_prompt_holds_query: "sublist q (summary_prompt q r)"
  unfolding summary_prompt_def by (intro sublist_here sublist_skip)

lemma summary_prompt_holds_result: "sublist r (summary_prompt q r)"
  unfolding summary_prompt_def by (intro sublist_here sublist_skip)

lemma summary_prompt_not_classify: "summary_prompt q r \<noteq> classify_prompt q'"
  by (simp add: summary_prompt_def classify_prompt_def nl_def)

lemma generate_summary_trace:
  "snd (generate_summary env tr q r)
     = tr @ [GenerateContent (summary_prompt q r) (generate_content env tr (summary_prompt q r))]"
  by (simp add: generate_summary_def Let_def split: outcome.split)

lemma generate_summary_text:
  "fst (generate_summary env tr q r)
     = (case generate_content env tr (summary_prompt q r) of
          Returns text \<Rightarrow> strip text
        | _ \<Rightarrow> [])"
  by (simp add: generate_summary_def Let_def split: outcome.split)

lemma body_summary_request:
  assumes "relevant_turns_loop (unicode_lower env) []
             (case history request of None \<Rightarrow> [] | Some h \<Rightarrow> h) \<noteq> []"
      and "is_summary_request_of (lower (unicode_lower env) (strip (query request)))"
  shows "search_patents_body env request =
           (Inr [(''results'', JResults []),
                 (''live_summary'',
                  JStr (fst (generate_summary env [] (strip (query request))
                        (answer_or_empty (last (relevant_turns_loop (unicode_lower env) []
                           (case history request of None \<Rightarrow> [] | Some h \<Rightarrow> h))))))),
                 (''related'', JBool True),
                 (''note'',
                  JStr (''Summary of previous response (Query #''
                        @ str_nat (length (relevant_turns_loop (unicode_lower env) []
                             (case history request of None \<Rightarrow> [] | Some h \<Rightarrow> h))) @ '')''))],
            snd (generate_summary env [] (strip (query request))
                        (answer_or_empty (last (relevant_turns_loop (unicode_lower env) []
                           (case history request of None \<Rightarrow> [] | Some h \<Rightarrow> h))))))"
proof (cases "generate_summary env [] (strip (query request))
                        (answer_or_empty (last (relevant_turns_loop (unicode_lower env) []
                           (case history request of None \<Rightarrow> [] | Some h \<Rightarrow> h))))")
  case (Pair summary_text tr1)
  with assms show ?thesis
    by (simp add: search_patents_body_def Let_def)
qed

text \<open>
  C1: let the relevant turns be the turns of the history whose answer is present, not
  empty and without the marker, and let there be one; let the query text, lower-cased,
  contain a summary keyword. Then one call is made, a generation whose prompt holds the
  answer text of the last relevant turn and the query text, and which is no
  classification prompt; no embedding, no query of the index and no fetch is made. The
  response has empty results, \<open>related\<close> true, and as \<open>live_summary\<close> the stripped text
  that this call returned, or the empty string when it raised or returned none. Nothing
  is assumed of the label of the query, so the check comes before the irrelevance check
  and the checks after it.
\<close>

theorem summary_request_short_circuit:
  assumes "filter (\<lambda>t. \<exists>a. answer t = Some a \<and> a \<noteq> []
                         \<and> \<not> sublist ''not relevant to patents'' (lower (unicode_lower env) a))
             (case history request of None \<Rightarrow> [] | Some h \<Rightarrow> h) \<noteq> []"
      and "\<exists>word\<in>set summary_keywords.
             sublist word (lower (unicode_lower env) (strip (query request)))"
  shows "\<exists>answer_text prompt.
           answer (last (filter (\<lambda>t. \<exists>a. answer t = Some a \<and> a \<noteq> []
                         \<and> \<not> sublist ''not relevant to patents'' (lower (unicode_lower env) a))
                   (case history request of None \<Rightarrow> [] | Some h \<Rightarrow> h))) = Some answer_text
           \<and> answer_text \<noteq> []
           \<and> sublist answer_text prompt
           \<and> sublist (strip (query request)) prompt
           \<and> (\<forall>q. prompt \<noteq> classify_prompt q)
           \<and> search_patents env request =
               ([(''results'', JResults []),
                 (''live_summary'',
                  JStr (case generate_content env [] prompt of
                          Returns text \<Rightarrow> strip text
                        | _ \<Rightarrow> [])),
                 (''related'', JBool True),
                 (''note'',
                  JStr (''Summary of previous response (Query #''
                        @ str_nat (length (filter (\<lambda>t. \<exists>a. answer t = Some a \<and> a \<noteq> []
                             \<and> \<not> sublist ''not relevant to patents''
                                   (lower (unicode_lower env) a))
                             (case history request of None \<Rightarrow> [] | Some h \<Rightarrow> h))) @ '')''))],
                [GenerateContent prompt (generate_content env [] prompt)])"
proof -
  let ?hist = "case history request of None \<Rightarrow> [] | Some h \<Rightarrow> h"
  let ?P = "\<lambda>t. \<exists>a. answer t = Some a \<and> a \<noteq> []
                 \<and> \<not> sublist ''not relevant to patents'' (lower (unicode_lower env) a)"
  let ?rel = "filter ?P ?hist"
  let ?q = "strip (query request)"
  have loop: "relevant_turns_loop (unicode_lower env) [] ?hist = ?rel"
    by (simp add: relevant_turns_loop_filter)
  from assms(1) have "last ?rel \<in> set ?rel" by (rule last_in_set)
  then have "?P (last ?rel)" by simp
  then obtain answer_text where c: "answer (last ?rel) = Some answer_text" and ne: "answer_text \<noteq> []"
    by blast
  have ao: "answer_or_empty (last ?rel) = answer_text"
    using c by (simp add: answer_or_empty_def)
  let ?prompt = "summary_prompt ?q answer_text"
  have s: "is_summary_request_of (lower (unicode_lower env) ?q)"
    using assms(2) by (simp add: is_summary_request_of_def list_ex_iff)
  have nonempty: "relevant_turns_loop (unicode_lower env) [] ?hist \<noteq> []"
    unfolding loop by (rule assms(1))
  note b = body_summary_request[OF nonempty s]
  have sp: "search_patents env request =
               ([(''results'', JResults []),
                 (''live_summary'',
                  JStr (case generate_content env [] ?prompt of
                          Returns text \<Rightarrow> strip text
                        | _ \<Rightarrow> [])),
                 (''related'', JBool True),
                 (''note'',
                  JStr (''Summary of previous response (Query #''
                        @ str_nat (length ?rel) @ '')''))],
                [GenerateContent ?prompt (generate_content env [] ?prompt)])"
    unfolding search_patents_def b loop ao generate_summary_text generate_summary_trace
    by simp
  have h1: "sublist answer_text ?prompt" by (rule summary_prompt_holds_result)
  have h2: "sublist ?q ?prompt" by (rule summary_prompt_holds_query)
  have h3: "\<forall>q. ?prompt \<noteq> classify_prompt q"
    by (intro allI summary_prompt_not_classify)
  show ?thesis
    by (rule exI[of _ answer_text], rule exI[of _ ?prompt])
       (rule conjI[OF c conjI[OF ne conjI[OF h1 conjI[OF h2 conjI[OF h3 sp]]]]])
qed

theorem summary_request_short_circuit_witness:
  "filter (\<lambda>t. \<exists>a. answer t = Some a \<and> a \<noteq> []
                  \<and> \<not> sublist ''not relevant to patents''
                        (lower (unicode_lower env_summarizer) a))
      (case history summarize_request of None \<Rightarrow> [] | Some h \<Rightarrow> h)
     = take 2 summarize_history
   \<and> (\<exists>word\<in>set summary_keywords.
         sublist word (lower (unicode_lower env_summarizer) (strip (query summarize_request))))
   \<and> search_patents env_summarizer summarize_request =
       ([(''results'', JResults []),
         (''live_summary'', JStr ''1. **Invention Overview** A pump.''),
         (''related'', JBool True),
         (''note'', JStr ''Summary of previous response (Query #2)'')],
        [GenerateContent
           (summary_prompt ''Summarize that in 3 lines'' ''Patent B claims a pump.'')
           (Returns '' 1. **Invention Overview** A pump. '')])"
proof -
  let ?P = "\<lambda>t. \<exists>a. answer t = Some a \<and> a \<noteq> []
                 \<and> \<not> sublist ''not relevant to patents''
                       (lower (unicode_lower env_summarizer) a)"
  let ?hist = "case history summarize_request of None \<Rightarrow> [] | Some h \<Rightarrow> h"
  have loop: "relevant_turns_loop (unicode_lower env_summarizer) [] ?hist
                = take 2 summarize_history"
    by code_simp
  have rel: "filter ?P ?hist = take 2 summarize_history"
    using loop by (simp add: relevant_turns_loop_filter)
  have a1: "filter ?P ?hist \<noteq> []"
    unfolding rel by (simp add: summarize_history_def)
  have a2: "\<exists>word\<in>set summary_keywords.
         sublist word (lower (unicode_lower env_summarizer) (strip (query summarize_request)))"
    by code_simp
  have q: "strip (query summarize_request) = ''Summarize that in 3 lines''"
    by code_simp
  have l: "last (take 2 summarize_history)
             = \<lparr>question = ''pump patents'', answer = Some ''Patent B claims a pump.''\<rparr>"
    by (simp add: summarize_history_def)
  have n: "str_nat (length (take 2 summarize_history)) = ''2''"
    by code_simp
  have st: "strip '' 1. **Invention Overview** A pump. '' = ''1. **Invention Overview** A pump.''"
    by code_simp
  from summary_request_short_circuit[OF a1 a2]
  obtain answer_text prompt where
    c: "answer (last (filter ?P ?hist)) = Some answer_text"
    and h1: "sublist answer_text prompt"
    and h2: "sublist (strip (query summarize_request)) prompt"
    and sp: "search_patents env_summarizer summarize_request =
               ([(''results'', JResults []),
                 (''live_summary'',
                  JStr (case generate_content env_summarizer [] prompt of
                          Returns text \<Rightarrow> strip text
                        | _ \<Rightarrow> [])),
                 (''related'', JBool True),
                 (''note'',
                  JStr (''Summary of previous response (Query #''
                        @ str_nat (length (filter ?P ?hist)) @ '')''))],
                [GenerateContent prompt (generate_content env_summarizer [] prompt)])"
    by blast
  from c have ctx: "answer_text = ''Patent B claims a pump.''"
    unfolding rel l by simp
  have g: "generate_content env_summarizer [] prompt = Returns '' 1. **Invention Overview** A pump. ''"
    using h1 unfolding ctx by (simp add: env_summarizer_def)
  have tr: "snd (search_patents env_summarizer summarize_request)
              = [GenerateContent
                   (summary_prompt ''Summarize that in 3 lines'' ''Patent B claims a pump.'')
                   (Returns '' 1. **Invention Overview** A pump. '')]"
    by code_simp
  have "search_patents env_summarizer summarize_request =
       ([(''results'', JResults []),
         (''live_summary'', JStr ''1. **Invention Overview** A pump.''),
         (''related'', JBool True),
         (''note'', JStr ''Summary of previous response (Query #2)'')],
        snd (search_patents env_summarizer summarize_request))"
    using sp unfolding g rel n by (simp add: st)
  then have c3: "search_patents env_summarizer summarize_request =
       ([(''results'', JResults []),
         (''live_summary'', JStr ''1. **Invention Overview** A pump.''),
         (''related'', JBool True),
         (''note'', JStr ''Summary of previous response (Query #2)'')],
        [GenerateContent
           (summary_prompt ''Summarize that in 3 lines'' ''Patent B claims a pump.'')
           (Returns '' 1. **Invention Overview** A pump. '')])"
    unfolding tr .
  show ?thesis by (rule conjI[OF rel conjI[OF a2 c3]])
qed

section \<open>The relatedness scan\<close>

lemma followup_loop_yes:
  assumes "affirmative (unicode_lower env) (generate_content env tr (followup_prompt turn q))"
  shows "followup_loop env n q tr i (turn # rest) =
           (\<lparr>is_related = True, related_to_index = Some (n - 1 - i), related_turn = Some turn\<rparr>,
            tr @ [asked q turn (generate_content env tr (followup_prompt turn q))])"
  using assms
  by (cases "generate_content env tr (followup_prompt turn q)")
     (simp_all add: affirmative_def asked_def)

lemma followup_loop_no:
  assumes "\<not> affirmative (unicode_lower env) (generate_content env tr (followup_prompt turn q))"
  shows "followup_loop env n q tr i (turn # rest) =
           followup_loop env n q
             (tr @ [asked q turn (generate_content env tr (followup_prompt turn q))]) (Suc i) rest"
  using assms
  by (cases "generate_content env tr (followup_prompt turn q)")
     (simp_all add: affirmative_def asked_def)

lemma length_scan_answers: "length (scan_answers env q tr ts) = length ts"
  by (induction ts arbitrary: tr) simp_all

lemma followup_loop_none:
  "\<forall>a\<in>set (scan_answers env q tr ts). \<not> affirmative (unicode_lower env) a \<Longrightarrow>
   followup_loop env n q tr i ts =
     (\<lparr>is_related = False, related_to_index = None, related_turn = None\<rparr>,
      tr @ map2 (asked q) ts (scan_answers env q tr ts))"
proof (induction ts arbitrary: tr i)
  case Nil
  then show ?case by simp
next
  case (Cons t ts)
  let ?a = "generate_content env tr (followup_prompt t q)"
  let ?tr1 = "tr @ [asked q t ?a]"
  from Cons.prems have no: "\<not> affirmative (unicode_lower env) ?a" by simp
  from Cons.prems have rest: "\<forall>a\<in>set (scan_answers env q ?tr1 ts). \<not> affirmative (unicode_lower env) a"
    by (simp add: asked_def)
  have "followup_loop env n q tr i (t # ts) = followup_loop env n q ?tr1 (Suc i) ts"
    using no by (rule followup_loop_no)
  also have "\<dots> = (\<lparr>is_related = False, related_to_index = None, related_turn = None\<rparr>,
      ?tr1 @ map2 (asked q) ts (scan_answers env q ?tr1 ts))"
    using rest by (rule Cons.IH)
  also have "?tr1 @ map2 (asked q) ts (scan_answers env q ?tr1 ts)
               = tr @ map2 (asked q) (t # ts) (scan_answers env q tr (t # ts))"
    by (simp add: asked_def)
  finally show ?case .
qed

lemma followup_loop_first:
  "k < length ts \<Longrightarrow> affirmative (unicode_lower env) (scan_answers env q tr ts ! k) \<Longrightarrow>
   \<forall>j<k. \<not> affirmative (unicode_lower env) (scan_answers env q tr ts ! j) \<Longrightarrow>
   followup_loop env n q tr i ts =
     (\<lparr>is_related = True, related_to_index = Some (n - 1 - (i + k)), related_turn = Some (ts ! k)\<rparr>,
      tr @ map2 (asked q) (take (Suc k) ts) (take (Suc k) (scan_answers env q tr ts)))"
proof (induction ts arbitrary: tr i k)
  case Nil
  then show ?case by simp
next
  case (Cons t ts)
  let ?a = "generate_content env tr (followup_prompt t q)"
  let ?tr1 = "tr @ [asked q t ?a]"
  show ?case
  proof (cases k)
    case 0
    with Cons.prems(2) have "affirmative (unicode_lower env) ?a" by simp
    then have "followup_loop env n q tr i (t # ts) =
           (\<lparr>is_related = True, related_to_index = Some (n - 1 - i), related_turn = Some t\<rparr>,
            tr @ [asked q t ?a])"
      by (rule followup_loop_yes)
    with 0 show ?thesis by simp
  next
    case (Suc k')
    from Cons.prems(3) Suc have no: "\<not> affirmative (unicode_lower env) ?a" by auto
    from Cons.prems(1) Suc have k': "k' < length ts" by simp
    from Cons.prems(2) Suc have aff: "affirmative (unicode_lower env) (scan_answers env q ?tr1 ts ! k')"
      by (simp add: asked_def)
    have before: "\<forall>j<k'. \<not> affirmative (unicode_lower env) (scan_answers env q ?tr1 ts ! j)"
    proof (intro allI impI)
      fix j assume "j < k'"
      then have "Suc j < k" using Suc by simp
      with Cons.prems(3) have "\<not> affirmative (unicode_lower env) (scan_answers env q tr (t # ts) ! Suc j)" by blast
      then show "\<not> affirmative (unicode_lower env) (scan_answers env q ?tr1 ts ! j)" by (simp add: asked_def)
    qed
    have "followup_loop env n q tr i (t # ts) = followup_loop env n q ?tr1 (Suc i) ts"
      using no by (rule followup_loop_no)
    also have "\<dots> = (\<lparr>is_related = True, related_to_index = Some (n - 1 - (Suc i + k')),
                        related_turn = Some (ts ! k')\<rparr>,
      ?tr1 @ map2 (asked q) (take (Suc k') ts) (take (Suc k') (scan_answers env q ?tr1 ts)))"
      using k' aff before by (rule Cons.IH)
    also have "?tr1 @ map2 (asked q) (take (Suc k') ts) (take (Suc k') (scan_answers env q ?tr1 ts))
         = tr @ map2 (asked q) (take (Suc k) (t # ts)) (take (Suc k) (scan_answers env q tr (t # ts)))"
      using Suc by (simp add: asked_def)
    finally show ?thesis using Suc by simp
  qed
qed

lemma affirmative_text:
  "affirmative ucd (Returns t) = prefix ''y'' (lower ucd (strip t))"
proof -
  have "prefix ''yes'' x \<Longrightarrow> prefix ''y'' x" for x :: string
    by (cases x) simp_all
  then show ?thesis by (auto simp add: affirmative_def)
qed

text \<open>
  C2: the scan asks the relevant turns from the most recent to the oldest, one question
  for each turn it reaches. If the turn at place \<open>k\<close> of that order is the first with an
  affirmative (unicode_lower env) answer, the scan has asked the turns up to it and no other, and returns
  that turn with its index \<open>length turns - 1 - k\<close> in the chronological list. An answer is
  affirmative when its text, stripped and lower-cased, starts with \<open>y\<close>; a call that
  raises or gives no text is not affirmative, so the scan goes on to the older turns. If
  no answer is affirmative the scan has asked every turn and the result is not related,
  without index and without turn.
\<close>

theorem relatedness_scan_first_affirmative:
  "(\<forall>k<length turns.
       affirmative (unicode_lower env) (scan_answers env q tr (rev turns) ! k)
       \<and> (\<forall>j<k. \<not> affirmative (unicode_lower env) (scan_answers env q tr (rev turns) ! j))
       \<longrightarrow> check_followup_relevance_multi env tr turns q =
             (\<lparr>is_related = True, related_to_index = Some (length turns - 1 - k),
               related_turn = Some (turns ! (length turns - 1 - k))\<rparr>,
              tr @ map2 (asked q) (take (Suc k) (rev turns))
                     (take (Suc k) (scan_answers env q tr (rev turns)))))
   \<and> ((\<forall>a\<in>set (scan_answers env q tr (rev turns)). \<not> affirmative (unicode_lower env) a)
       \<longrightarrow> check_followup_relevance_multi env tr turns q =
             (\<lparr>is_related = False, related_to_index = None, related_turn = None\<rparr>,
              tr @ map2 (asked q) (rev turns) (scan_answers env q tr (rev turns))))
   \<and> \<not> affirmative (unicode_lower env) (Raises e) \<and> \<not> affirmative (unicode_lower env) NoResponse
   \<and> (\<forall>t. affirmative (unicode_lower env) (Returns t)
            = prefix ''y'' (lower (unicode_lower env) (strip t)))"
proof (intro conjI allI impI)
  fix k
  assume k: "k < length turns"
  assume h: "affirmative (unicode_lower env) (scan_answers env q tr (rev turns) ! k)
       \<and> (\<forall>j<k. \<not> affirmative (unicode_lower env) (scan_answers env q tr (rev turns) ! j))"
  from k have k': "k < length (rev turns)" by simp
  have "followup_loop env (length turns) q tr 0 (rev turns) =
     (\<lparr>is_related = True, related_to_index = Some (length turns - 1 - (0 + k)),
       related_turn = Some (rev turns ! k)\<rparr>,
      tr @ map2 (asked q) (take (Suc k) (rev turns)) (take (Suc k) (scan_answers env q tr (rev turns))))"
    using k' conjunct1[OF h] conjunct2[OF h] by (rule followup_loop_first)
  moreover have "rev turns ! k = turns ! (length turns - 1 - k)"
    using k by (simp add: rev_nth)
  ultimately show "check_followup_relevance_multi env tr turns q =
             (\<lparr>is_related = True, related_to_index = Some (length turns - 1 - k),
               related_turn = Some (turns ! (length turns - 1 - k))\<rparr>,
              tr @ map2 (asked q) (take (Suc k) (rev turns))
                     (take (Suc k) (scan_answers env q tr (rev turns))))"
    by (simp add: check_followup_relevance_multi_def)
next
  assume "\<forall>a\<in>set (scan_answers env q tr (rev turns)). \<not> affirmative (unicode_lower env) a"
  then have "followup_loop env (length turns) q tr 0 (rev turns) =
     (\<lparr>is_related = False, related_to_index = None, related_turn = None\<rparr>,
      tr @ map2 (asked q) (rev turns) (scan_answers env q tr (rev turns)))"
    by (rule followup_loop_none)
  then show "check_followup_relevance_multi env tr turns q =
             (\<lparr>is_related = False, related_to_index = None, related_turn = None\<rparr>,
              tr @ map2 (asked q) (rev turns) (scan_answers env q tr (rev turns)))"
    by (simp add: check_followup_relevance_multi_def)
next
  show "\<not> affirmative (unicode_lower env) (Raises e)" by (simp add: affirmative_def)
  show "\<not> affirmative (unicode_lower env) NoResponse" by (simp add: affirmative_def)
  show "affirmative (unicode_lower env) (Returns t)
          = prefix ''y'' (lower (unicode_lower env) (strip t))" for t
    by (rule affirmative_text)
qed

theorem relatedness_scan_first_affirmative_witness:
  "Suc (Suc 0) < length three_turns
   \<and> affirmative (unicode_lower env_scan) (scan_answers env_scan ''What about its seal?'' [] (rev three_turns) ! Suc (Suc 0))
   \<and> \<not> affirmative (unicode_lower env_scan) (scan_answers env_scan ''What about its seal?'' [] (rev three_turns) ! 0)
   \<and> \<not> affirmative (unicode_lower env_scan) (scan_answers env_scan ''What about its seal?'' [] (rev three_turns) ! Suc 0)
   \<and> fst (check_followup_relevance_multi env_scan [] three_turns ''What about its seal?'')
       = \<lparr>is_related = True, related_to_index = Some 0,
          related_turn = Some \<lparr>question = ''valve patents'',
                                answer = Some ''Patent A claims a valve.''\<rparr>\<rparr>
   \<and> length (snd (check_followup_relevance_multi env_scan [] three_turns ''What about its seal?''))
       = 3"
proof -
  let ?q = "''What about its seal?''"
  have sa: "scan_answers env_scan ?q [] (rev three_turns)
              = [Raises (Error ''deadline exceeded''), Returns ''No.'', Returns '' Yes, it is.'']"
    by code_simp
  have y: "affirmative (unicode_lower env_scan) (Returns '' Yes, it is.'')" by code_simp
  have n0: "\<not> affirmative (unicode_lower env_scan) (Raises (Error ''deadline exceeded''))" by (simp add: affirmative_def)
  have n1: "\<not> affirmative (unicode_lower env_scan) (Returns ''No.'')" by code_simp
  have a0: "Suc (Suc 0) < length three_turns" by (simp add: three_turns_def)
  have a1: "affirmative (unicode_lower env_scan) (scan_answers env_scan ?q [] (rev three_turns) ! Suc (Suc 0))"
    unfolding sa using y by simp
  have a2: "\<forall>j<Suc (Suc 0). \<not> affirmative (unicode_lower env_scan) (scan_answers env_scan ?q [] (rev three_turns) ! j)"
    unfolding sa using n0 n1 by (simp add: less_Suc_eq)
  note t = conjunct1[OF relatedness_scan_first_affirmative[of three_turns env_scan ?q "[]"]]
  have r: "check_followup_relevance_multi env_scan [] three_turns ?q =
             (\<lparr>is_related = True, related_to_index = Some (length three_turns - 1 - Suc (Suc 0)),
               related_turn = Some (three_turns ! (length three_turns - 1 - Suc (Suc 0)))\<rparr>,
              [] @ map2 (asked ?q) (take (Suc (Suc (Suc 0))) (rev three_turns))
                     (take (Suc (Suc (Suc 0))) (scan_answers env_scan ?q [] (rev three_turns))))"
    by (rule mp[OF mp[OF spec[OF t] a0] conjI[OF a1 a2]])
  have c1: "fst (check_followup_relevance_multi env_scan [] three_turns ?q)
       = \<lparr>is_related = True, related_to_index = Some 0,
          related_turn = Some \<lparr>question = ''valve patents'',
                                answer = Some ''Patent A claims a valve.''\<rparr>\<rparr>"
    unfolding r by (simp add: three_turns_def)
  have c2: "length (snd (check_followup_relevance_multi env_scan [] three_turns ?q)) = 3"
    unfolding r sa by (simp add: three_turns_def)
  have b0: "\<not> affirmative (unicode_lower env_scan) (scan_answers env_scan ?q [] (rev three_turns) ! 0)"
    unfolding sa using n0 by simp
  have b1: "\<not> affirmative (unicode_lower env_scan) (scan_answers env_scan ?q [] (rev three_turns) ! Suc 0)"
    unfolding sa using n1 by simp
  show ?thesis by (rule conjI[OF a0 conjI[OF a1 conjI[OF b0 conjI[OF b1 conjI[OF c1 c2]]]]])
qed

section \<open>Ingestion\<close>

text \<open>
  A document whose claims can be read and whose combined text is empty leaves the state
  of the run as it was: no summary is generated and no other call is made, no chunk is
  produced, nothing is written to the vector index or to the table, and the run goes on
  with the next file.
\<close>

lemma textless_document_skipped:
  assumes "claims_data_of patent = Inr claims_data"
      and "strip (extract_english_field (get_list (pj_abstracts patent)) ''paragraph_markup''
                  @ '' '' @ claims_text_of claims_data) = []"
  shows "process_patent env st file_idx patent = Inr st
         \<and> process_files env st file_idx (Loaded patent # files)
             = process_files env st (Suc file_idx) files"
proof -
  have p: "process_patent env st file_idx patent = Inr st"
    using assms by (simp add: process_patent_def Let_def)
  then show ?thesis by simp
qed

text \<open>
  C8 fails on the code for a document without text whose list of claims groups is
  empty. The default of \<open>patent.get("claims", [{}])\<close> covers the absent key only: on the
  empty list the index \<open>[0]\<close> raises \<open>IndexError\<close> before the combined text is formed
  and tested, nothing catches it, and the run ends there, so the file after it is not
  processed.
\<close>

theorem empty_claims_document_aborts_run:
  "extract_english_field (get_list (pj_abstracts patent_with_empty_claims)) ''paragraph_markup''
     = []
   \<and> pj_claims patent_with_empty_claims = Some []
   \<and> process_patent env_outage start_state 0 patent_with_empty_claims
       = Inl (Error ''list index out of range'')
   \<and> process_and_upsert_patents env_outage
         [Loaded patent_with_empty_claims, Loaded patent_without_text] (Inr [])
       = Inl (Error ''list index out of range'')"
proof (intro conjI)
  show "extract_english_field (get_list (pj_abstracts patent_with_empty_claims))
          ''paragraph_markup'' = []"
    by code_simp
  show "pj_claims patent_with_empty_claims = Some []"
    by (simp add: patent_with_empty_claims_def)
  show "process_patent env_outage start_state 0 patent_with_empty_claims
          = Inl (Error ''list index out of range'')"
    by code_simp
  show "process_and_upsert_patents env_outage
          [Loaded patent_with_empty_claims, Loaded patent_without_text] (Inr [])
        = Inl (Error ''list index out of range'')"
    by code_simp
qed

text \<open>
  A document whose combined text is not empty reaches the call of \<open>generate_summary\<close>
  with one argument, which raises; nothing in the run catches it. So a file that is
  loaded either leaves the state as it was or ends the run, and a run that ends normally
  has written nothing and has called no service.
\<close>

lemma ingestion_stops_at_summary_call:
  assumes "claims_data_of patent = Inr claims_data"
      and "strip (extract_english_field (get_list (pj_abstracts patent)) ''paragraph_markup''
                  @ '' '' @ claims_text_of claims_data) \<noteq> []"
  shows "process_patent env st file_idx patent
           = Inl (Error (''generate_summary() missing 1 required positional argument: 'result''
                      @ [CHR 0x27]))"
  using assms by (simp add: process_patent_def Let_def call_generate_summary_def)

lemma process_patent_keeps_state:
  "process_patent env st file_idx patent = Inr st' \<Longrightarrow> st' = st"
  by (auto simp add: process_patent_def Let_def call_generate_summary_def
        split: sum.splits if_splits)

lemma process_files_keeps_state:
  "process_files env st file_idx files = Inr st' \<Longrightarrow> st' = st"
proof (induction files arbitrary: file_idx)
  case Nil
  then show ?case by simp
next
  case (Cons f files)
  show ?case
  proof (cases f)
    case Unreadable
    with Cons show ?thesis by simp
  next
    case (Loaded patent)
    with Cons.prems obtain st1 where
      p: "process_patent env st file_idx patent = Inr st1"
      and r: "process_files env st1 (Suc file_idx) files = Inr st'"
      by (auto split: sum.splits)
    from p have "st1 = st" by (rule process_patent_keeps_state)
    with r Cons.IH show ?thesis by simp
  qed
qed

text \<open>
  C9 fails on the code for every document with text. When the embedding service is down,
  the claim has the chunks of the document passed over, the documents after it processed
  and the errors counted and reported at the end. The run does not come that far:
  \<open>generate_summary(combined_text)\<close> raises \<open>TypeError\<close> for the missing argument before
  any chunk is formed, the run ends with that exception without a report, and the second
  document is never read.
\<close>

theorem text_document_aborts_run:
  "strip (extract_english_field (get_list (pj_abstracts patent_with_abstract)) ''paragraph_markup''
          @ '' '' @ claims_text_of []) = ''A valve.''
   \<and> process_patent env_outage start_state 0 patent_with_abstract
       = Inl (Error (''generate_summary() missing 1 required positional argument: 'result''
                      @ [CHR 0x27]))
   \<and> process_and_upsert_patents env_outage
         [Loaded patent_with_abstract, Loaded patent_with_abstract] (Inr [])
       = Inl (Error (''generate_summary() missing 1 required positional argument: 'result''
                      @ [CHR 0x27]))"
  by code_simp

text \<open>
  The loop over the chunks, which no run reaches, is written to pass over a chunk whose
  dense or sparse embedding fails: it goes on with the remaining chunks from a state
  whose table and whose counter are unchanged, and the calls made for the chunk are the
  UUID and the embedding calls, none of them an upsert. The counter counts the chunks
  written; the loop keeps no count of the failures.
\<close>

lemma dense_trace:
  "\<exists>evs. snd (generate_dense_embedding env tr text) = tr @ evs \<and> (\<forall>c\<in>set evs. \<not> is_upsert c)"
proof (cases "text = [] \<or> strip text = []")
  case True
  then have "snd (generate_dense_embedding env tr text) = tr @ []"
    by (simp add: generate_dense_embedding_def)
  then show ?thesis by (intro exI[of _ "[]"]) simp
next
  case False
  then have "snd (generate_dense_embedding env tr text)
               = tr @ [EmbedContent text (embed_content env tr text)]"
    by (simp add: generate_dense_embedding_def Let_def split: outcome.split)
  then show ?thesis
    by (intro exI[of _ "[EmbedContent text (embed_content env tr text)]"]) (simp add: is_upsert_def)
qed

lemma sparse_trace:
  "\<exists>evs. snd (generate_sparse_embedding env tr text fq) = tr @ evs \<and> (\<forall>c\<in>set evs. \<not> is_upsert c)"
proof (cases "text = [] \<or> strip text = []")
  case True
  then have "snd (generate_sparse_embedding env tr text fq) = tr @ []"
    by (simp add: generate_sparse_embedding_def)
  then show ?thesis by (intro exI[of _ "[]"]) simp
next
  case False
  let ?ty = "if fq then ''query'' else ''passage''"
  from False have "snd (generate_sparse_embedding env tr text fq)
               = tr @ [InferenceEmbed text ?ty (inference_embed env tr text ?ty)]"
    by (simp add: generate_sparse_embedding_def Let_def split: outcome.split option.split)
  then show ?thesis
    by (intro exI[of _ "[InferenceEmbed text ?ty (inference_embed env tr text ?ty)]"])
       (simp add: is_upsert_def)
qed

lemma process_chunks_dense_none:
  assumes "fst (generate_dense_embedding env (calls st @ [Uuid4 (uuid4 env (calls st))]) chunk) = None"
  shows "process_chunks env pn ti de ab cl ds st chunk_idx (chunk # chunks)
           = process_chunks env pn ti de ab cl ds
               (st\<lparr>calls := snd (generate_dense_embedding env
                                   (calls st @ [Uuid4 (uuid4 env (calls st))]) chunk)\<rparr>)
               (Suc chunk_idx) chunks"
proof (cases "generate_dense_embedding env (calls st @ [Uuid4 (uuid4 env (calls st))]) chunk")
  case (Pair d tr2)
  with assms show ?thesis by (simp add: Let_def)
qed

lemma process_chunks_sparse_none:
  assumes "fst (generate_dense_embedding env (calls st @ [Uuid4 (uuid4 env (calls st))]) chunk) \<noteq> None"
      and "fst (generate_sparse_embedding env
                 (snd (generate_dense_embedding env (calls st @ [Uuid4 (uuid4 env (calls st))]) chunk))
                 chunk False) = None"
  shows "process_chunks env pn ti de ab cl ds st chunk_idx (chunk # chunks)
           = process_chunks env pn ti de ab cl ds
               (st\<lparr>calls := snd (generate_sparse_embedding env
                 (snd (generate_dense_embedding env (calls st @ [Uuid4 (uuid4 env (calls st))]) chunk))
                 chunk False)\<rparr>)
               (Suc chunk_idx) chunks"
proof (cases "generate_dense_embedding env (calls st @ [Uuid4 (uuid4 env (calls st))]) chunk")
  case (Pair d tr2)
  show ?thesis
  proof (cases "generate_sparse_embedding env tr2 chunk False")
    case (Pair s tr3)
    with \<open>generate_dense_embedding env (calls st @ [Uuid4 (uuid4 env (calls st))]) chunk = (d, tr2)\<close>
      assms show ?thesis by (auto simp add: Let_def)
  qed
qed

lemma process_chunks_skips_failed_chunk:
  assumes "fst (generate_dense_embedding env (calls st @ [Uuid4 (uuid4 env (calls st))]) chunk) = None
           \<or> fst (generate_sparse_embedding env
                 (snd (generate_dense_embedding env (calls st @ [Uuid4 (uuid4 env (calls st))]) chunk))
                 chunk False) = None"
  shows "\<exists>evs. (\<forall>c\<in>set evs. \<not> is_upsert c)
           \<and> process_chunks env pn ti de ab cl ds st chunk_idx (chunk # chunks)
             = process_chunks env pn ti de ab cl ds (st\<lparr>calls := calls st @ evs\<rparr>)
                 (Suc chunk_idx) chunks"
proof -
  let ?tr1 = "calls st @ [Uuid4 (uuid4 env (calls st))]"
  let ?D = "generate_dense_embedding env ?tr1 chunk"
  let ?S = "generate_sparse_embedding env (snd ?D) chunk False"
  obtain e1 where e1: "snd ?D = ?tr1 @ e1" "\<forall>c\<in>set e1. \<not> is_upsert c"
    using dense_trace[of env ?tr1 chunk] by blast
  obtain e2 where e2: "snd ?S = snd ?D @ e2" "\<forall>c\<in>set e2. \<not> is_upsert c"
    using sparse_trace[of env "snd ?D" chunk False] by blast
  have u: "\<not> is_upsert (Uuid4 (uuid4 env (calls st)))" by (simp add: is_upsert_def)
  show ?thesis
  proof (cases "fst ?D = None")
    case True
    have "process_chunks env pn ti de ab cl ds st chunk_idx (chunk # chunks)
            = process_chunks env pn ti de ab cl ds (st\<lparr>calls := snd ?D\<rparr>) (Suc chunk_idx) chunks"
      using True by (rule process_chunks_dense_none)
    also have "snd ?D = calls st @ (Uuid4 (uuid4 env (calls st)) # e1)" using e1(1) by simp
    finally show ?thesis using e1(2) u
      by (intro exI[of _ "Uuid4 (uuid4 env (calls st)) # e1"]) simp
  next
    case False
    with assms have s: "fst ?S = None" by blast
    have "process_chunks env pn ti de ab cl ds st chunk_idx (chunk # chunks)
            = process_chunks env pn ti de ab cl ds (st\<lparr>calls := snd ?S\<rparr>) (Suc chunk_idx) chunks"
      using False s by (rule process_chunks_sparse_none)
    also have "snd ?S = calls st @ (Uuid4 (uuid4 env (calls st)) # e1 @ e2)"
      using e1(1) e2(1) by simp
    finally show ?thesis using e1(2) e2(2) u
      by (intro exI[of _ "Uuid4 (uuid4 env (calls st)) # e1 @ e2"]) auto
  qed
qed

section \<open>The handler\<close>

lemma uncaught_append: "uncaught (a @ b) = uncaught a @ uncaught b"
  by (induction a) (simp_all split: option.split)

lemma structured_results: "structured ((''results'', JResults rs) # rest)"
  by (simp add: structured_def)

lemma structured_error: "structured [(''error'', JStr m)]"
  by (simp add: structured_def)

lemma dense_uncaught:
  "uncaught (snd (generate_dense_embedding env tr text)) = uncaught tr"
  by (simp add: generate_dense_embedding_def Let_def uncaught_append split: outcome.split)

lemma sparse_uncaught:
  "uncaught (snd (generate_sparse_embedding env tr text fq)) = uncaught tr"
  by (simp add: generate_sparse_embedding_def Let_def uncaught_append
           split: outcome.split option.split)

lemma classify_uncaught:
  "uncaught (snd (classify_query_type env tr q)) = uncaught tr"
  by (simp add: classify_trace uncaught_append)

lemma generic_uncaught:
  "uncaught (snd (generate_generic_answer env tr q)) = uncaught tr"
  by (simp add: generate_generic_answer_def Let_def uncaught_append split: outcome.split)

lemma summary_uncaught:
  "uncaught (snd (generate_summary env tr q r)) = uncaught tr"
  by (simp add: generate_summary_trace uncaught_append)

lemma followup_loop_uncaught:
  "uncaught (snd (followup_loop env n q tr i ts)) = uncaught tr"
proof (induction ts arbitrary: tr i)
  case Nil
  then show ?case by simp
next
  case (Cons t ts)
  show ?case
  proof (cases "affirmative (unicode_lower env) (generate_content env tr (followup_prompt t q))")
    case True
    then show ?thesis
      by (simp add: followup_loop_yes uncaught_append asked_def del: followup_loop.simps)
  next
    case False
    then show ?thesis
      by (simp add: followup_loop_no Cons.IH uncaught_append asked_def del: followup_loop.simps)
  qed
qed

lemma followup_uncaught:
  "uncaught (snd (check_followup_relevance_multi env tr turns q)) = uncaught tr"
  by (simp add: check_followup_relevance_multi_def followup_loop_uncaught)

lemma query_index_uncaught:
  "uncaught (snd (query_index env tr d s k))
     = uncaught tr @ (case fst (query_index env tr d s k) of Inl e \<Rightarrow> [e] | Inr ids \<Rightarrow> [])"
  by (simp add: query_index_def Let_def uncaught_append split: sum.split)

lemma fetch_results_uncaught:
  "uncaught (snd (fetch_results env tr ids))
     = uncaught tr @ (case fst (fetch_results env tr ids) of Inl e \<Rightarrow> [e] | Inr rows \<Rightarrow> [])"
  by (simp add: fetch_results_def Let_def uncaught_append split: sum.split)

lemma retrieval_uncaught:
  "uncaught (snd (retrieval env request tr text m t1 t2))
     = uncaught tr @ (case fst (retrieval env request tr text m t1 t2) of Inl e \<Rightarrow> [e] | Inr r \<Rightarrow> [])"
  by (simp add: retrieval_def split_beta Let_def dense_uncaught sparse_uncaught generic_uncaught
        summary_uncaught query_index_uncaught fetch_results_uncaught
        split: option.split sum.split)

lemma retrieval_structured:
  "fst (retrieval env request tr text m t1 t2) = Inr r \<Longrightarrow> structured r"
  by (auto simp add: retrieval_def split_beta Let_def structured_results structured_error
        split: option.splits sum.splits if_splits)

lemma body_uncaught:
  "set (uncaught (snd (search_patents_body env request)))
     \<subseteq> (case fst (search_patents_body env request) of Inl e \<Rightarrow> {e} | Inr r \<Rightarrow> {})"
  by (simp add: search_patents_body_def split_beta Let_def classify_uncaught generic_uncaught
        summary_uncaught followup_uncaught retrieval_uncaught
        split: option.split sum.split)

lemma body_structured:
  "fst (search_patents_body env request) = Inr r \<Longrightarrow> structured r"
  by (auto simp add: search_patents_body_def split_beta Let_def structured_results
        split: option.splits if_splits dest: retrieval_structured)

lemma raised_in_uncaught: "c \<in> set tr \<Longrightarrow> raised c = Some e \<Longrightarrow> e \<in> set (uncaught tr)"
  by (induction tr) (auto split: option.split)

text \<open>
  C7: an exception that leaves the routing sequence is caught by the handler, which
  returns the dictionary with its message under \<open>error\<close>. The calls whose exception no
  helper catches are the query of the index and the \<open>SELECT\<close>: whenever one of them
  raised, the response is that dictionary. In every case the response is a dictionary
  with an \<open>error\<close> message or with a list of \<open>results\<close>.
\<close>

theorem search_patents_never_raises:
  "(\<forall>e tr. search_patents_body env request = (Inl e, tr)
        \<longrightarrow> search_patents env request = ([(''error'', JStr (str_of_error e))], tr))
   \<and> (\<forall>c\<in>set (snd (search_patents env request)). \<forall>e. raised c = Some e
        \<longrightarrow> fst (search_patents env request) = [(''error'', JStr (str_of_error e))])
   \<and> ((\<exists>m. map_of (fst (search_patents env request)) ''error'' = Some (JStr m))
        \<or> (\<exists>rs. map_of (fst (search_patents env request)) ''results'' = Some (JResults rs)))"
proof (intro conjI allI ballI impI)
  fix e tr
  assume "search_patents_body env request = (Inl e, tr)"
  then show "search_patents env request = ([(''error'', JStr (str_of_error e))], tr)"
    by (simp add: search_patents_def)
next
  fix c e
  assume c: "c \<in> set (snd (search_patents env request))" and r: "raised c = Some e"
  obtain res tr where b: "search_patents_body env request = (res, tr)"
    by (cases "search_patents_body env request")
  have tr: "snd (search_patents env request) = tr"
    using b by (cases res) (simp_all add: search_patents_def)
  from c r tr have "e \<in> set (uncaught tr)" by (simp add: raised_in_uncaught)
  moreover have "set (uncaught tr) \<subseteq> (case res of Inl e \<Rightarrow> {e} | Inr r \<Rightarrow> {})"
    using body_uncaught[of env request] b by simp
  ultimately have "res = Inl e" by (cases res) auto
  with b show "fst (search_patents env request) = [(''error'', JStr (str_of_error e))]"
    by (simp add: search_patents_def)
next
  obtain res tr where b: "search_patents_body env request = (res, tr)"
    by (cases "search_patents_body env request")
  have "structured (fst (search_patents env request))"
  proof (cases res)
    case (Inl e)
    with b show ?thesis by (simp add: search_patents_def structured_error)
  next
    case (Inr r)
    with b have "structured r" using body_structured[of env request r] by simp
    with b Inr show ?thesis by (simp add: search_patents_def)
  qed
  then show "(\<exists>m. map_of (fst (search_patents env request)) ''error'' = Some (JStr m))
        \<or> (\<exists>rs. map_of (fst (search_patents env request)) ''results'' = Some (JResults rs))"
    by (simp only: structured_def)
qed

theorem search_patents_never_raises_witness:
  "IndexQuery [1, 2] None 5 (Inl (Error ''connection reset''))
     \<in> set (snd (search_patents env_index_down cache_request))
   \<and> raised (IndexQuery [1, 2] None 5 (Inl (Error ''connection reset'')))
       = Some (Error ''connection reset'')
   \<and> fst (search_patents env_index_down cache_request) = [(''error'', JStr ''connection reset'')]"
proof -
  have a1: "IndexQuery [1, 2] None 5 (Inl (Error ''connection reset''))
     \<in> set (snd (search_patents env_index_down cache_request))"
    by code_simp
  have a2: "raised (IndexQuery [1, 2] None 5 (Inl (Error ''connection reset'')))
       = Some (Error ''connection reset'')"
    by simp
  note t = conjunct1[OF conjunct2[OF search_patents_never_raises[of env_index_down cache_request]]]
  have "fst (search_patents env_index_down cache_request)
          = [(''error'', JStr (str_of_error (Error ''connection reset'')))]"
    by (rule mp[OF spec[OF bspec[OF t a1]] a2])
  then have c: "fst (search_patents env_index_down cache_request) = [(''error'', JStr ''connection reset'')]"
    by (simp only: str_of_error.simps)
  show ?thesis by (rule conjI[OF a1 conjI[OF a2 c]])
qed

section \<open>The records of a response\<close>

lemma fetch_selected:
  "fetch_metadata_from_sqlite db ids = Inr rows \<Longrightarrow> d \<in> set rows
     \<Longrightarrow> \<exists>table. db = Inr table \<and> selected_columns table d"
  by (auto simp add: fetch_metadata_from_sqlite_def selected_columns_def row_dict_of_def
        split: sum.splits)

lemma retrieval_results_selected:
  assumes "fst (retrieval env request tr text m t1 t2) = Inr r"
      and "map_of r ''results'' = Some (JResults rs)" and "d \<in> set rs"
  shows "\<exists>table. patent_data_db env = Inr table \<and> selected_columns table d"
  using assms
  by (auto simp add: retrieval_def split_beta Let_def fetch_results_def
        split: option.splits sum.splits if_splits dest: fetch_selected)

lemma body_results_selected:
  assumes "fst (search_patents_body env request) = Inr r"
      and "map_of r ''results'' = Some (JResults rs)" and "d \<in> set rs"
  shows "\<exists>table. patent_data_db env = Inr table \<and> selected_columns table d"
  using assms
  by (auto simp add: search_patents_body_def split_beta Let_def
        split: option.splits if_splits dest: retrieval_results_selected)

text \<open>
  C6, as the code has it: each record in the \<open>results\<close> of a response is the dictionary
  of the four selected columns \<open>vector_id\<close>, \<open>patent_number\<close>, \<open>title\<close> and
  \<open>detailed_summary\<close>, with the values stored in a row of the table; \<open>description\<close>,
  \<open>abstract\<close> and \<open>claims_text\<close> are stored and not returned.
\<close>

theorem returned_records_carry_selected_columns:
  assumes "map_of (fst (search_patents env request)) ''results'' = Some (JResults rs)"
      and "d \<in> set rs"
  shows "\<exists>table. patent_data_db env = Inr table
           \<and> (\<exists>row\<in>set table.
                 d = [(''vector_id'', Some (vector_id row)), (''patent_number'', patent_number row),
                      (''title'', title row), (''detailed_summary'', detailed_summary row)])
           \<and> map fst d = [''vector_id'', ''patent_number'', ''title'', ''detailed_summary'']"
proof -
  obtain res tr where b: "search_patents_body env request = (res, tr)"
    by (cases "search_patents_body env request")
  show ?thesis
  proof (cases res)
    case (Inl e)
    with b have "fst (search_patents env request) = [(''error'', JStr (str_of_error e))]"
      by (simp add: search_patents_def)
    with assms(1) show ?thesis by simp
  next
    case (Inr r)
    with b have f: "fst (search_patents_body env request) = Inr r" by simp
    from b Inr have "fst (search_patents env request) = r" by (simp add: search_patents_def)
    with assms(1) have m: "map_of r ''results'' = Some (JResults rs)" by simp
    from f m assms(2) obtain table where
      t: "patent_data_db env = Inr table" and s: "selected_columns table d"
      using body_results_selected by blast
    from s obtain row where row: "row \<in> set table"
      and d: "d = [(''vector_id'', Some (vector_id row)), (''patent_number'', patent_number row),
                  (''title'', title row), (''detailed_summary'', detailed_summary row)]"
      unfolding selected_columns_def by (rule bexE)
    from d have k: "map fst d = [''vector_id'', ''patent_number'', ''title'', ''detailed_summary'']"
      by simp
    from row d have "\<exists>row\<in>set table.
                 d = [(''vector_id'', Some (vector_id row)), (''patent_number'', patent_number row),
                      (''title'', title row), (''detailed_summary'', detailed_summary row)]"
      by (rule bexI[rotated])
    with t k show ?thesis by (intro exI conjI)
  qed
qed

theorem returned_records_carry_selected_columns_witness:
  "map_of (fst (search_patents env_one_match cache_request)) ''results''
     = Some (JResults
         [ [(''vector_id'', Some ''US1_chunk_0_0f8fad5b''), (''patent_number'', Some ''US1''),
           (''title'', Some ''Valve''), (''detailed_summary'', Some ''Summary.'')]])
   \<and> (\<exists>table. patent_data_db env_one_match = Inr table
           \<and> (\<exists>row\<in>set table.
                 [(''vector_id'', Some ''US1_chunk_0_0f8fad5b''), (''patent_number'', Some ''US1''),
                  (''title'', Some ''Valve''), (''detailed_summary'', Some ''Summary.'')]
                 = [(''vector_id'', Some (vector_id row)), (''patent_number'', patent_number row),
                      (''title'', title row), (''detailed_summary'', detailed_summary row)])
           \<and> map fst [(''vector_id'', Some ''US1_chunk_0_0f8fad5b''), (''patent_number'', Some ''US1''),
                  (''title'', Some ''Valve''), (''detailed_summary'', Some ''Summary.'')]
               = [''vector_id'', ''patent_number'', ''title'', ''detailed_summary''])"
proof -
  have a1: "map_of (fst (search_patents env_one_match cache_request)) ''results''
     = Some (JResults
         [ [(''vector_id'', Some ''US1_chunk_0_0f8fad5b''), (''patent_number'', Some ''US1''),
           (''title'', Some ''Valve''), (''detailed_summary'', Some ''Summary.'')]])"
    by code_simp
  have a2: "[(''vector_id'', Some ''US1_chunk_0_0f8fad5b''), (''patent_number'', Some ''US1''),
             (''title'', Some ''Valve''), (''detailed_summary'', Some ''Summary.'')]
            \<in> set [ [(''vector_id'', Some ''US1_chunk_0_0f8fad5b''), (''patent_number'', Some ''US1''),
             (''title'', Some ''Valve''), (''detailed_summary'', Some ''Summary.'')]]"
    by (rule list.set_intros(1))
  show ?thesis by (rule conjI[OF a1 returned_records_carry_selected_columns[OF a1 a2]])
qed

end
